theory Spec2Isabelle
  imports Main
begin

section \<open>Strings and character classes\<close>

text \<open>
  The server works on JavaScript strings. They are modelled as \<^typ>\<open>string\<close>, one
  \<^typ>\<open>char\<close> per code unit, so the model covers the texts whose code units lie in
  0..255. The character classes are those of the regular expressions of the source:
  \<open>\s\<close> (white space and line terminators: 9..13, 32 and 160 in this range), \<open>\w\<close>,
  and \<open>.\<close> (everything but the line terminators 10 and 13).
\<close>

definition code :: "char \<Rightarrow> nat" where
  "code c = of_char c"

definition isDigit :: "char \<Rightarrow> bool" where
  "isDigit c = (48 \<le> code c \<and> code c \<le> 57)"

definition isUpper :: "char \<Rightarrow> bool" where
  "isUpper c = (65 \<le> code c \<and> code c \<le> 90)"

definition isLower :: "char \<Rightarrow> bool" where
  "isLower c = (97 \<le> code c \<and> code c \<le> 122)"

definition isAlpha :: "char \<Rightarrow> bool" where
  "isAlpha c = (isUpper c \<or> isLower c)"

definition isWord :: "char \<Rightarrow> bool" where
  "isWord c = (isAlpha c \<or> isDigit c \<or> c = CHR ''_'')"

definition isSpace :: "char \<Rightarrow> bool" where
  "isSpace c = ((9 \<le> code c \<and> code c \<le> 13) \<or> code c = 32 \<or> code c = 160)"

definition isDot :: "char \<Rightarrow> bool" where
  "isDot c = (code c \<noteq> 10 \<and> code c \<noteq> 13)"

text \<open>\<open>[a-zA-Z_$]\<close> and \<open>[a-zA-Z0-9_$]\<close> (the same set as \<open>[\w$]\<close>).\<close>

definition identStart :: "char \<Rightarrow> bool" where
  "identStart c = (isAlpha c \<or> c = CHR ''_'' \<or> c = CHR ''$'')"

definition identPart :: "char \<Rightarrow> bool" where
  "identPart c = (isWord c \<or> c = CHR ''$'')"

text \<open>\<open>String.prototype.trim\<close>, \<open>startsWith\<close>, \<open>endsWith\<close>.\<close>

definition trim :: "string \<Rightarrow> string" where
  "trim s = rev (dropWhile isSpace (rev (dropWhile isSpace s)))"

definition startsWith :: "string \<Rightarrow> string \<Rightarrow> bool" where
  "startsWith s p = (take (length p) s = p)"

definition endsWith :: "string \<Rightarrow> string \<Rightarrow> bool" where
  "endsWith s p = startsWith (rev s) (rev p)"

text \<open>
  \<open>toLowerCase\<close> on one code unit: the ASCII capitals, and the Latin-1 capitals
  192..222 except the multiplication sign 215.
\<close>

definition lowerChar :: "char \<Rightarrow> char" where
  "lowerChar c = (if isUpper c \<or> (192 \<le> code c \<and> code c \<le> 222 \<and> code c \<noteq> 215)
                  then char_of (code c + 32) else c)"

definition toLowerCase :: "string \<Rightarrow> string" where
  "toLowerCase s = map lowerChar s"

section \<open>Regular expressions: a backtracking matcher\<close>

text \<open>
  The source scans text with JavaScript regular expressions only. Each regular
  expression of the source is written below as a term of \<open>re\<close>, and \<open>run\<close> is the
  backtracking matcher of the language: it returns the states in which a match can end,
  in the order in which the engine tries them, so the head of the list is the match the
  engine reports. A state is the text left of the cursor (reversed), the text right of
  it, and the capture groups.
\<close>

datatype mstate = MState (pre: string) (rest: string) (caps: "nat \<Rightarrow> string option")

datatype re =
    Cls "char \<Rightarrow> bool"
  | Emp
  | Cat re re
  | Or re re
  | Star re
  | StarLazy re
  | Cap nat re
  | Bol
  | Eol
  | WordB
  | Ahead re

text \<open>
  A greedy \<open>r*\<close> first tries one more round of \<open>r\<close>, then stops; the lazy \<open>r*?\<close> tries to
  stop first. A round that consumes nothing is rejected, as the language defines it, so
  the length of the remaining text bounds the number of rounds.
\<close>

primrec star :: "(mstate \<Rightarrow> mstate list) \<Rightarrow> nat \<Rightarrow> mstate \<Rightarrow> mstate list" where
  "star f 0 st = [st]"
| "star f (Suc k) st =
     concat (map (\<lambda>st'. if length (rest st') < length (rest st) then star f k st' else [])
                 (f st)) @ [st]"

primrec starLazy :: "(mstate \<Rightarrow> mstate list) \<Rightarrow> nat \<Rightarrow> mstate \<Rightarrow> mstate list" where
  "starLazy f 0 st = [st]"
| "starLazy f (Suc k) st =
     st # concat (map (\<lambda>st'. if length (rest st') < length (rest st) then starLazy f k st'
                              else []) (f st))"

definition atWordBoundary :: "mstate \<Rightarrow> bool" where
  "atWordBoundary st =
     ((case pre st of [] \<Rightarrow> False | c # _ \<Rightarrow> isWord c)
        \<noteq> (case rest st of [] \<Rightarrow> False | c # _ \<Rightarrow> isWord c))"

primrec run :: "re \<Rightarrow> mstate \<Rightarrow> mstate list" where
  "run (Cls P) st =
     (case rest st of [] \<Rightarrow> []
      | c # cs \<Rightarrow> if P c then [MState (c # pre st) cs (caps st)] else [])"
| "run Emp st = [st]"
| "run (Cat a b) st = concat (map (run b) (run a st))"
| "run (Or a b) st = run a st @ run b st"
| "run (Star a) st = star (run a) (length (rest st)) st"
| "run (StarLazy a) st = starLazy (run a) (length (rest st)) st"
| "run (Cap n a) st =
     map (\<lambda>st'. MState (pre st') (rest st')
            ((caps st')(n \<mapsto> rev (take (length (pre st') - length (pre st)) (pre st')))))
         (run a st)"
| "run Bol st = (if pre st = [] then [st] else [])"
| "run Eol st = (if rest st = [] then [st] else [])"
| "run WordB st = (if atWordBoundary st then [st] else [])"
| "run (Ahead a) st = (if run a st = [] then [] else [st])"

definition Plus :: "re \<Rightarrow> re" where
  "Plus r = Cat r (Star r)"

definition Opt :: "re \<Rightarrow> re" where
  "Opt r = Or r Emp"

definition chr :: "char \<Rightarrow> re" where
  "chr c = Cls (\<lambda>x. x = c)"

text \<open>A letter under the \<open>i\<close> flag matches in both cases.\<close>

definition chrI :: "char \<Rightarrow> re" where
  "chrI c = Cls (\<lambda>x. lowerChar x = c \<and> code x < 128)"

fun cats :: "re list \<Rightarrow> re" where
  "cats [] = Emp"
| "cats [r] = r"
| "cats (r # rs) = Cat r (cats rs)"

definition lit :: "string \<Rightarrow> re" where
  "lit s = cats (map chr s)"

definition litI :: "string \<Rightarrow> re" where
  "litI s = cats (map chrI s)"

text \<open>
  A match as \<open>String.prototype.match\<close> and \<open>RegExp.prototype.exec\<close> report it: the index
  where it starts, the matched text, and the groups (\<open>None\<close> for a group that did not
  take part, which JavaScript reads as \<open>undefined\<close>).
\<close>

record rmatch =
  mindex :: nat
  mtext :: string
  mgroups :: "nat \<Rightarrow> string option"

definition matchHere :: "re \<Rightarrow> string \<Rightarrow> string \<Rightarrow> (rmatch \<times> string \<times> string) option" where
  "matchHere r p s =
     (case run r (MState p s Map.empty) of
        [] \<Rightarrow> None
      | st' # _ \<Rightarrow>
          Some (\<lparr>mindex = length p,
                 mtext = rev (take (length (pre st') - length p) (pre st')),
                 mgroups = caps st'\<rparr>, pre st', rest st'))"

text \<open>
  The search for the leftmost match, from the position with \<open>p\<close> (reversed) on its left
  and \<open>s\<close> on its right; it also returns the position where the match ends.
\<close>

fun searchFrom :: "re \<Rightarrow> string \<Rightarrow> string \<Rightarrow> (rmatch \<times> string \<times> string) option" where
  "searchFrom r p [] = matchHere r p []"
| "searchFrom r p (c # cs) =
     (case matchHere r p (c # cs) of
        Some x \<Rightarrow> Some x
      | None \<Rightarrow> searchFrom r (c # p) cs)"

text \<open>
  The text of a group. A group that took no part in the match reads as \<open>undefined\<close> in
  JavaScript; \<open>groupText\<close> gives the empty string for it, which is falsy as \<open>undefined\<close> is,
  and is used where the source tests the group for truthiness or where the group takes
  part in every match of its pattern.
\<close>

definition groupText :: "rmatch \<Rightarrow> nat \<Rightarrow> string" where
  "groupText mt n = (case mgroups mt n of Some v \<Rightarrow> v | None \<Rightarrow> [])"

text \<open>\<open>s.match(r)\<close> for a regular expression without the \<open>g\<close> flag.\<close>

definition rmatch :: "re \<Rightarrow> string \<Rightarrow> rmatch option" where
  "rmatch r s = map_option fst (searchFrom r [] s)"

text \<open>
  Every state the matcher reaches lies to the right of the state it started from: it has
  consumed a piece \<open>u\<close> of the text.
\<close>

definition extends :: "mstate \<Rightarrow> mstate \<Rightarrow> bool" where
  "extends st st' = (\<exists>u. rest st = u @ rest st' \<and> pre st' = rev u @ pre st)"

text \<open>
  \<open>s.match(r)\<close> for a regular expression with the \<open>g\<close> flag: all matches from left to
  right, each search starting where the last match ended, and one character further
  after an empty match.
\<close>

function matchAll :: "re \<Rightarrow> string \<Rightarrow> string \<Rightarrow> rmatch list" where
  "matchAll r p s =
     (case searchFrom r p s of
        None \<Rightarrow> []
      | Some (mt, p', s') \<Rightarrow>
          if mtext mt = [] then
            (case s' of [] \<Rightarrow> [mt] | c # cs \<Rightarrow> mt # matchAll r (c # p') cs)
          else mt # matchAll r p' s')"
  by pat_completeness auto

lemma extends_refl: "extends st st"
  by (simp add: extends_def)

lemma extends_trans: "extends a b \<Longrightarrow> extends b c \<Longrightarrow> extends a c"
  by (auto simp: extends_def)

lemma star_extends:
  assumes f: "\<And>st st'. st' \<in> set (f st) \<Longrightarrow> extends st st'"
  shows "st' \<in> set (star f k st) \<Longrightarrow> extends st st'"
proof (induction k arbitrary: st)
  case 0
  then show ?case by (simp add: extends_refl)
next
  case (Suc k)
  from Suc.prems have "st' = st \<or> (\<exists>m \<in> set (f st). st' \<in> set (star f k m))"
    by (auto split: if_splits)
  then show ?case
  proof
    assume "st' = st" then show ?thesis by (simp add: extends_refl)
  next
    assume "\<exists>m \<in> set (f st). st' \<in> set (star f k m)"
    then obtain m where m: "m \<in> set (f st)" "st' \<in> set (star f k m)" by blast
    from f [OF m(1)] Suc.IH [OF m(2)] show ?thesis by (rule extends_trans)
  qed
qed

lemma starLazy_extends:
  assumes f: "\<And>st st'. st' \<in> set (f st) \<Longrightarrow> extends st st'"
  shows "st' \<in> set (starLazy f k st) \<Longrightarrow> extends st st'"
proof (induction k arbitrary: st)
  case 0
  then show ?case by (simp add: extends_refl)
next
  case (Suc k)
  from Suc.prems have "st' = st \<or> (\<exists>m \<in> set (f st). st' \<in> set (starLazy f k m))"
    by (auto split: if_splits)
  then show ?case
  proof
    assume "st' = st" then show ?thesis by (simp add: extends_refl)
  next
    assume "\<exists>m \<in> set (f st). st' \<in> set (starLazy f k m)"
    then obtain m where m: "m \<in> set (f st)" "st' \<in> set (starLazy f k m)" by blast
    from f [OF m(1)] Suc.IH [OF m(2)] show ?thesis by (rule extends_trans)
  qed
qed

lemma run_extends: "st' \<in> set (run r st) \<Longrightarrow> extends st st'"
proof (induction r arbitrary: st st')
  case (Cls P)
  then show ?case by (auto simp: extends_def split: list.splits if_splits)
next
  case Emp
  then show ?case by (simp add: extends_refl)
next
  case (Cat a b)
  from Cat.prems obtain m where "m \<in> set (run a st)" "st' \<in> set (run b m)" by auto
  then show ?case using Cat.IH extends_trans by blast
next
  case (Or a b)
  then show ?case by auto
next
  case (Star a)
  then show ?case using star_extends [of "run a"] by simp
next
  case (StarLazy a)
  then show ?case using starLazy_extends [of "run a"] by simp
next
  case (Cap n a)
  from Cap.prems obtain m where m: "m \<in> set (run a st)"
    and st': "st' = MState (pre m) (rest m) ((caps m)(n \<mapsto> rev (take (length (pre m) - length (pre st)) (pre m))))"
    by auto
  from Cap.IH [OF m] show ?case by (simp add: st' extends_def)
next
  case Bol
  then show ?case by (auto simp: extends_refl split: if_splits)
next
  case Eol
  then show ?case by (auto simp: extends_refl split: if_splits)
next
  case WordB
  then show ?case by (auto simp: extends_refl split: if_splits)
next
  case (Ahead a)
  then show ?case by (auto simp: extends_refl split: if_splits)
qed

lemma matchHere_extends:
  assumes "matchHere r p s = Some (mt, p', s')"
  shows "\<exists>u. s = u @ s' \<and> p' = rev u @ p \<and> mtext mt = u \<and> mindex mt = length p"
proof (cases "run r (MState p s Map.empty)")
  case Nil
  with assms show ?thesis by (simp add: matchHere_def)
next
  case (Cons st' sts)
  with assms have e: "mindex mt = length p"
    "mtext mt = rev (take (length (pre st') - length p) (pre st'))"
    "p' = pre st'" "s' = rest st'"
    by (auto simp: matchHere_def)
  from Cons have "st' \<in> set (run r (MState p s Map.empty))" by simp
  from run_extends [OF this] obtain u where "s = u @ rest st'" "pre st' = rev u @ p"
    by (auto simp: extends_def)
  with e show ?thesis by simp
qed

lemma searchFrom_extends:
  "searchFrom r p s = Some (mt, p', s') \<Longrightarrow>
     \<exists>w u. s = w @ u @ s' \<and> p' = rev u @ rev w @ p \<and> mtext mt = u \<and> mindex mt = length p + length w"
proof (induction r p s rule: searchFrom.induct)
  case (1 r p)
  then show ?case using matchHere_extends [of r p "[]" mt p' s'] by auto
next
  case (2 r p c cs)
  show ?case
  proof (cases "matchHere r p (c # cs)")
    case None
    with "2.IH" "2.prems" obtain w u where "cs = w @ u @ s'" "p' = rev u @ rev w @ c # p" "mtext mt = u"
      "mindex mt = length (c # p) + length w" by auto
    then have "c # cs = (c # w) @ u @ s' \<and> p' = rev u @ rev (c # w) @ p \<and> mtext mt = u
       \<and> mindex mt = length p + length (c # w)" by simp
    then show ?thesis by blast
  next
    case (Some x)
    with "2.prems" have "matchHere r p (c # cs) = Some (mt, p', s')" by simp
    from matchHere_extends [OF this] show ?thesis by fastforce
  qed
qed

termination matchAll
proof (relation "measure (\<lambda>(r, p, s). length s)")
  show "wf (measure (\<lambda>(r, p, s). length s))" by simp
next
  fix r p s x2 mt y p' s' c cs
  assume "searchFrom r p s = Some x2" "(mt, y) = x2" "(p', s') = y" "mtext mt = []" "s' = c # cs"
  then have "searchFrom r p s = Some (mt, p', c # cs)" by simp
  from searchFrom_extends [OF this] show "((r, c # p', cs), r, p, s) \<in> measure (\<lambda>(r, p, s). length s)"
    by auto
next
  fix r p s x2 mt y p' s'
  assume "searchFrom r p s = Some x2" "(mt, y) = x2" "(p', s') = y" "mtext mt \<noteq> []"
  then have "searchFrom r p s = Some (mt, p', s')" by simp
  from searchFrom_extends [OF this] \<open>mtext mt \<noteq> []\<close>
  show "((r, p', s'), r, p, s) \<in> measure (\<lambda>(r, p, s). length s)"
    by auto
qed

declare matchAll.simps [simp del]

text \<open>
  A syntactic check that every match of a pattern consumes at least one character.
\<close>

fun consumes :: "re \<Rightarrow> bool" where
  "consumes (Cls P) = True"
| "consumes (Cat a b) = (consumes a \<or> consumes b)"
| "consumes (Or a b) = (consumes a \<and> consumes b)"
| "consumes (Cap n a) = consumes a"
| "consumes _ = False"

text \<open>
  The loop \<^verbatim>\<open>while ((match = pattern.exec(text)) !== null)\<close> over a regular expression
  with the \<open>g\<close> flag. \<open>exec\<close> starts at \<open>lastIndex\<close>, the end of the last match; after an
  empty match it finds the same match again, and the loop never ends, which is the value
  \<open>None\<close>.
\<close>

partial_function (option) execAll :: "re \<Rightarrow> string \<Rightarrow> string \<Rightarrow> rmatch list option" where
  "execAll r p s =
     (case searchFrom r p s of
        None \<Rightarrow> Some []
      | Some (mt, p', s') \<Rightarrow>
          if mtext mt = [] then execAll r p s
          else Option.bind (execAll r p' s') (\<lambda>ms. Some (mt # ms)))"

declare execAll.simps [code]

section \<open>Objects used as tables\<close>

text \<open>
  The metadata tables are object literals. \<open>key in table\<close> and \<open>table[key]\<close> also see
  the members every object inherits from \<open>Object.prototype\<close>, so both are modelled with
  them: a key is \<open>Own\<close> when the literal declares it, \<open>Inherited\<close> when it names a
  member of the prototype (a truthy value that is not a metadata record), and
  \<open>Undefined\<close> otherwise.
\<close>

definition objectPrototypeKeys :: "string list" where
  "objectPrototypeKeys =
     [''constructor'', ''__defineGetter__'', ''__defineSetter__'', ''hasOwnProperty'',
      ''__lookupGetter__'', ''__lookupSetter__'', ''isPrototypeOf'',
      ''propertyIsEnumerable'', ''toString'', ''valueOf'', ''__proto__'',
      ''toLocaleString'']"

datatype 'a member = Undefined | Own 'a | Inherited string

text \<open>The exceptions the modelled code can raise.\<close>

datatype jsError = TypeError | SyntaxError

definition jsIn :: "string \<Rightarrow> (string \<times> 'a) list \<Rightarrow> bool" where
  "jsIn k tbl = (map_of tbl k \<noteq> None \<or> k \<in> set objectPrototypeKeys)"

definition jsGet :: "(string \<times> 'a) list \<Rightarrow> string \<Rightarrow> 'a member" where
  "jsGet tbl k =
     (case map_of tbl k of
        Some v \<Rightarrow> Own v
      | None \<Rightarrow> if k \<in> set objectPrototypeKeys then Inherited k else Undefined)"

section \<open>Directive metadata\<close>

datatype DirectiveCategory = ControlFlow | Iteration | ReactiveEffect | ConditionalVisibility

datatype Placement = PElement | PComponent

datatype ElementType = TElement | TComponent | TSlot

record DirectiveMetadata =
  dirName :: string
  category :: DirectiveCategory
  dirDescription :: string
  dirSyntax :: string
  placement :: "Placement list"
  dirExample :: string
  createsScope :: "bool option"
  scopeVariables :: "string list option"

definition DIRECTIVES :: "(string \<times> DirectiveMetadata) list" where
  \<open>DIRECTIVES =
     [(''zen:if'',
       \<lparr>dirName = ''zen:if'',
        category = ControlFlow,
        dirDescription = ''Compile-time conditional directive. Conditionally renders the element based on a boolean expression.'',
        dirSyntax = ''zen:if="condition"'',
        placement = [PElement, PComponent],
        dirExample = ''<div zen:if="isVisible">Conditionally rendered</div>'',
        createsScope = None,
        scopeVariables = None\<rparr>),
      (''zen:for'',
       \<lparr>dirName = ''zen:for'',
        category = Iteration,
        dirDescription = ''Compile-time iteration directive. Repeats the element for each item in a collection.'',
        dirSyntax = ''zen:for="item in items" or zen:for="item, index in items"'',
        placement = [PElement, PComponent],
        dirExample = ''<li zen:for="item in items">{item.name}</li>'',
        createsScope = Some True,
        scopeVariables = Some [''item'', ''index'']\<rparr>),
      (''zen:effect'',
       \<lparr>dirName = ''zen:effect'',
        category = ReactiveEffect,
        dirDescription = ''Compile-time reactive effect directive. Attaches a side effect to the element lifecycle.'',
        dirSyntax = ''zen:effect="expression"'',
        placement = [PElement, PComponent],
        dirExample = ''<div zen:effect="console.log(\'rendered\')">Content</div>'',
        createsScope = None,
        scopeVariables = None\<rparr>),
      (''zen:show'',
       \<lparr>dirName = ''zen:show'',
        category = ConditionalVisibility,
        dirDescription = ''Compile-time visibility directive. Toggles element visibility without removing from DOM.'',
        dirSyntax = ''zen:show="condition"'',
        placement = [PElement, PComponent],
        dirExample = ''<div zen:show="isOpen">Toggle visibility</div>'',
        createsScope = None,
        scopeVariables = None\<rparr>)]\<close>



text \<open>\<open>Object.keys\<close>: the own keys, in the order of the literal.\<close>

definition getDirectiveNames :: "string list" where
  "getDirectiveNames = map fst DIRECTIVES"

text \<open>
  \<open>canPlaceDirective\<close>: an inherited member is truthy and has no \<open>placement\<close>, so
  reading \<open>placement.includes\<close> on it throws.
\<close>

definition canPlaceDirective :: "string \<Rightarrow> ElementType \<Rightarrow> jsError + bool" where
  "canPlaceDirective directiveName elementType =
     (case jsGet DIRECTIVES directiveName of
        Undefined \<Rightarrow> Inr False
      | Inherited _ \<Rightarrow> if elementType = TSlot then Inr False else Inl TypeError
      | Own directive \<Rightarrow>
          if elementType = TSlot then Inr False
          else Inr ((case elementType of TElement \<Rightarrow> PElement | _ \<Rightarrow> PComponent)
                      \<in> set (placement directive)))"

text \<open>
  \<open>parseForExpression\<close> matches
  \<^verbatim>\<open>/^\s*([a-zA-Z_$][\w$]*)(?:\s*,\s*([a-zA-Z_$][\w$]*))?\s+in\s+(.+)\s*$/\<close>.
\<close>

definition forPattern :: re where
  "forPattern = cats
     [Bol, Star (Cls isSpace),
      Cap 1 (Cat (Cls identStart) (Star (Cls identPart))),
      Opt (cats [Star (Cls isSpace), chr CHR '','', Star (Cls isSpace),
                 Cap 2 (Cat (Cls identStart) (Star (Cls identPart)))]),
      Plus (Cls isSpace), lit ''in'', Plus (Cls isSpace),
      Cap 3 (Plus (Cls isDot)),
      Star (Cls isSpace), Eol]"

record ForExpression =
  itemVar :: string
  indexVar :: "string option"
  source :: string

definition parseForExpression :: "string \<Rightarrow> ForExpression option" where
  "parseForExpression expression =
     (case rmatch forPattern expression of
        None \<Rightarrow> None
      | Some mt \<Rightarrow>
          Some \<lparr>itemVar = groupText mt 1,
                indexVar = mgroups mt 2,
                source = trim (groupText mt 3)\<rparr>)"

section \<open>Core and plugin module metadata\<close>

datatype ExportKind = KFunction | KComponent | KType | KVariable

record ModuleExport =
  expName :: string
  expKind :: ExportKind
  expDescription :: string
  expSignature :: "string option"

record ModuleMetadata =
  metaModule :: string
  metaDescription :: string
  metaExports :: "ModuleExport list"
  metaRequired :: "bool option"

text \<open>
  \<open>CoreModuleMetadata\<close> and \<open>PluginModuleMetadata\<close> share one record: a plugin module
  also has \<open>required\<close>, which is \<open>None\<close> for a core module.
\<close>

definition CORE_MODULES :: "(string \<times> ModuleMetadata) list" where
  \<open>CORE_MODULES =
     [(''zenith'',
       \<lparr>metaModule = ''zenith'',
        metaDescription = ''Core Zenith runtime primitives and lifecycle hooks.'',
        metaExports =
          [\<lparr>expName = ''zenEffect'', expKind = KFunction,
            expDescription = ''Reactive effect that re-runs when dependencies change.'',
            expSignature = Some ''zenEffect(callback: () => void | (() => void)): void''\<rparr>,
           \<lparr>expName = ''zenOnMount'', expKind = KFunction,
            expDescription = ''Called when component is mounted to the DOM.'',
            expSignature = Some ''zenOnMount(callback: () => void | (() => void)): void''\<rparr>,
           \<lparr>expName = ''zenOnDestroy'', expKind = KFunction,
            expDescription = ''Called when component is removed from the DOM.'',
            expSignature = Some ''zenOnDestroy(callback: () => void): void''\<rparr>,
           \<lparr>expName = ''zenOnUpdate'', expKind = KFunction,
            expDescription = ''Called after any state update causes a re-render.'',
            expSignature = Some ''zenOnUpdate(callback: () => void): void''\<rparr>,
           \<lparr>expName = ''zenRef'', expKind = KFunction,
            expDescription = ''Create a reactive reference.'',
            expSignature = Some ''zenRef<T>(initial: T): { value: T }''\<rparr>,
           \<lparr>expName = ''zenState'', expKind = KFunction,
            expDescription = ''Create reactive state.'',
            expSignature = Some ''zenState<T>(initial: T): [T, (value: T) => void]''\<rparr>,
           \<lparr>expName = ''zenMemo'', expKind = KFunction,
            expDescription = ''Memoize a computed value.'',
            expSignature = Some ''zenMemo<T>(compute: () => T): T''\<rparr>,
           \<lparr>expName = ''zenBatch'', expKind = KFunction,
            expDescription = ''Batch multiple state updates.'',
            expSignature = Some ''zenBatch(callback: () => void): void''\<rparr>,
           \<lparr>expName = ''zenUntrack'', expKind = KFunction,
            expDescription = ''Run code without tracking dependencies.'',
            expSignature = Some ''zenUntrack<T>(callback: () => T): T''\<rparr>],
        metaRequired = None\<rparr>),
      (''zenith/router'',
       \<lparr>metaModule = ''zenith/router'',
        metaDescription = ''File-based SPA router for Zenith framework.'',
        metaExports =
          [\<lparr>expName = ''ZenLink'', expKind = KComponent,
            expDescription = ''Declarative navigation component for routes.'',
            expSignature = Some ''<ZenLink to="/path" preload?>{children}</ZenLink>''\<rparr>,
           \<lparr>expName = ''useRoute'', expKind = KFunction,
            expDescription = ''Provides reactive access to the current route. Must be called at top-level script scope.'',
            expSignature = Some ''useRoute(): { path: string; params: Record<string, string>; query: Record<string, string> }''\<rparr>,
           \<lparr>expName = ''useRouter'', expKind = KFunction,
            expDescription = ''Provides programmatic navigation methods.'',
            expSignature = Some ''useRouter(): { navigate: (to: string, options?: { replace?: boolean }) => void; back: () => void; forward: () => void }''\<rparr>,
           \<lparr>expName = ''navigate'', expKind = KFunction,
            expDescription = ''Navigate to a route programmatically.'',
            expSignature = Some ''navigate(to: string, options?: { replace?: boolean }): void''\<rparr>,
           \<lparr>expName = ''prefetch'', expKind = KFunction,
            expDescription = ''Prefetch a route for faster navigation.'',
            expSignature = Some ''prefetch(path: string): Promise<void>''\<rparr>,
           \<lparr>expName = ''isActive'', expKind = KFunction,
            expDescription = ''Check if a route is currently active.'',
            expSignature = Some ''isActive(path: string, exact?: boolean): boolean''\<rparr>,
           \<lparr>expName = ''getRoute'', expKind = KFunction,
            expDescription = ''Get the current route state.'',
            expSignature = Some ''getRoute(): { path: string; params: Record<string, string>; query: Record<string, string> }''\<rparr>],
        metaRequired = None\<rparr>)]\<close>

definition getCoreModule :: "string \<Rightarrow> ModuleMetadata member" where
  "getCoreModule moduleName = jsGet CORE_MODULES moduleName"

definition isCoreModule :: "string \<Rightarrow> bool" where
  "isCoreModule moduleName = jsIn moduleName CORE_MODULES"

definition PLUGIN_MODULES :: "(string \<times> ModuleMetadata) list" where
  \<open>PLUGIN_MODULES =
     [(''zenith:content'',
       \<lparr>metaModule = ''zenith:content'',
        metaDescription = ''Content collections plugin for Zenith. Provides type-safe content management for Markdown, MDX, and JSON files.'',
        metaExports =
          [\<lparr>expName = ''zenCollection'', expKind = KFunction,
            expDescription = ''Define a content collection with schema validation.'',
            expSignature = Some ''zenCollection<T>(options: { name: string; schema: T }): Collection<T>''\<rparr>,
           \<lparr>expName = ''getCollection'', expKind = KFunction,
            expDescription = ''Get all entries from a content collection.'',
            expSignature = Some ''getCollection(name: string): Promise<CollectionEntry[]>''\<rparr>,
           \<lparr>expName = ''getEntry'', expKind = KFunction,
            expDescription = ''Get a single entry from a content collection.'',
            expSignature = Some ''getEntry(collection: string, slug: string): Promise<CollectionEntry | undefined>''\<rparr>,
           \<lparr>expName = ''useZenOrder'', expKind = KFunction,
            expDescription = ''Hook to sort collection entries by frontmatter order field.'',
            expSignature = Some ''useZenOrder(entries: CollectionEntry[]): CollectionEntry[]''\<rparr>],
        metaRequired = Some False\<rparr>),
      (''zenith:image'',
       \<lparr>metaModule = ''zenith:image'',
        metaDescription = ''Image optimization plugin for Zenith.'',
        metaExports =
          [\<lparr>expName = ''Image'', expKind = KFunction,
            expDescription = ''Optimized image component with automatic format conversion and lazy loading.'',
            expSignature = Some ''Image({ src: string; alt: string; width?: number; height?: number })''\<rparr>,
           \<lparr>expName = ''getImage'', expKind = KFunction,
            expDescription = ''Get optimized image metadata.'',
            expSignature = Some ''getImage(src: string, options?: ImageOptions): Promise<ImageMetadata>''\<rparr>],
        metaRequired = Some False\<rparr>)]\<close>

definition getPluginModule :: "string \<Rightarrow> ModuleMetadata member" where
  "getPluginModule moduleName = jsGet PLUGIN_MODULES moduleName"

definition isPluginModule :: "string \<Rightarrow> bool" where
  "isPluginModule moduleName = startsWith moduleName ''zenith:''"

definition isKnownPluginModule :: "string \<Rightarrow> bool" where
  "isKnownPluginModule moduleName = jsIn moduleName PLUGIN_MODULES"




section \<open>Import resolution\<close>

datatype ModuleKind = Core | Plugin | External

record ResolvedImport =
  resolvedModule :: string
  resolvedKind :: ModuleKind
  resolvedMetadata :: "ModuleMetadata member"
  isKnown :: bool

definition resolveModule :: "string \<Rightarrow> ResolvedImport" where
  "resolveModule moduleName =
     (if isCoreModule moduleName then
        \<lparr>resolvedModule = moduleName, resolvedKind = Core,
         resolvedMetadata = getCoreModule moduleName, isKnown = True\<rparr>
      else if isPluginModule moduleName then
        \<lparr>resolvedModule = moduleName, resolvedKind = Plugin,
         resolvedMetadata = getPluginModule moduleName,
         isKnown = isKnownPluginModule moduleName\<rparr>
      else
        \<lparr>resolvedModule = moduleName, resolvedKind = External,
         resolvedMetadata = Undefined, isKnown = False\<rparr>)"


section \<open>Parsing the imports of a script\<close>

text \<open>\<open>s.split(c)\<close> for a one-character separator: the empty string gives one empty part.\<close>

fun splitOn :: "char \<Rightarrow> string \<Rightarrow> string list" where
  "splitOn sep [] = [[]]"
| "splitOn sep (c # cs) =
     (if c = sep then [] # splitOn sep cs
      else (case splitOn sep cs of [] \<Rightarrow> [[c]] | l # ls \<Rightarrow> (c # l) # ls))"

text \<open>
  \<open>s.split(r)[0]\<close> for a regular expression that matches no empty text: the text before
  the leftmost match, or all of \<open>s\<close>.
\<close>

definition splitHead :: "re \<Rightarrow> string \<Rightarrow> string" where
  "splitHead r s = (case rmatch r s of None \<Rightarrow> s | Some mt \<Rightarrow> take (mindex mt) s)"

definition isQuote :: "char \<Rightarrow> bool" where
  "isQuote c = (c = CHR 0x27 \<or> c = CHR 0x22)"

text \<open>
  \<^verbatim>\<open>/import\s+(type\s+)?(?:\{([^}]+)\}|(\*\s+as\s+\w+)|(\w+))\s+from\s+['"]([^'"]+)['"]/\<close>
\<close>

definition importPattern :: re where
  "importPattern = cats
     [lit ''import'', Plus (Cls isSpace),
      Opt (Cap 1 (Cat (lit ''type'') (Plus (Cls isSpace)))),
      Or (cats [chr CHR ''{'', Cap 2 (Plus (Cls (\<lambda>c. c \<noteq> CHR ''}''))), chr CHR ''}''])
         (Or (Cap 3 (cats [chr CHR ''*'', Plus (Cls isSpace), lit ''as'', Plus (Cls isSpace),
                           Plus (Cls isWord)]))
             (Cap 4 (Plus (Cls isWord)))),
      Plus (Cls isSpace), lit ''from'', Plus (Cls isSpace),
      Cls isQuote, Cap 5 (Plus (Cls (\<lambda>c. \<not> isQuote c))), Cls isQuote]"

text \<open>\<^verbatim>\<open>/import\s+['"]([^'"]+)['"]/\<close> and \<^verbatim>\<open>/\s+as\s+/\<close>\<close>

definition sideEffectPattern :: re where
  "sideEffectPattern = cats
     [lit ''import'', Plus (Cls isSpace),
      Cls isQuote, Cap 1 (Plus (Cls (\<lambda>c. \<not> isQuote c))), Cls isQuote]"

definition asPattern :: re where
  "asPattern = cats [Plus (Cls isSpace), lit ''as'', Plus (Cls isSpace)]"

record ParsedImport =
  impModule :: string
  specifiers :: "string list"
  isType :: bool
  impLine :: nat

definition isZenithName :: "string \<Rightarrow> bool" where
  "isZenithName moduleName =
     (startsWith moduleName ''zenith'' \<or> startsWith moduleName ''zenith:'')"

text \<open>The names of \<open>{ a, b as c, d }\<close>: each part up to its \<open>as\<close>, the empty ones dropped.\<close>

definition namedSpecifiers :: "string \<Rightarrow> string list" where
  "namedSpecifiers namedImports =
     filter (\<lambda>cleaned. cleaned \<noteq> [])
       (map (\<lambda>part. trim (splitHead asPattern (trim part))) (splitOn CHR '','' namedImports))"

text \<open>
  The body of the loop over the lines, for the line \<open>lines[i]\<close>: first the import with
  \<open>from\<close>, then the side-effect import, which is looked at only when the first pattern
  did not match.
\<close>

definition fromImport :: "nat \<Rightarrow> string \<Rightarrow> ParsedImport list" where
  "fromImport i line =
     (case rmatch importPattern line of
        None \<Rightarrow> []
      | Some importMatch \<Rightarrow>
          let moduleName = groupText importMatch 5 in
          if isZenithName moduleName then
            [\<lparr>impModule = moduleName,
              specifiers =
                (case mgroups importMatch 2 of
                   Some namedImports \<Rightarrow> namedSpecifiers namedImports
                 | None \<Rightarrow>
                    (case mgroups importMatch 3 of
                       Some namespaceImport \<Rightarrow> [trim namespaceImport]
                     | None \<Rightarrow>
                        (case mgroups importMatch 4 of
                           Some defaultImport \<Rightarrow> [defaultImport]
                         | None \<Rightarrow> []))),
              isType = (mgroups importMatch 1 \<noteq> None),
              impLine = i + 1\<rparr>]
          else [])"

definition sideEffectImport :: "nat \<Rightarrow> string \<Rightarrow> ParsedImport list" where
  "sideEffectImport i line =
     (case rmatch sideEffectPattern line of
        None \<Rightarrow> []
      | Some sideEffectMatch \<Rightarrow>
          if rmatch importPattern line = None then
            let moduleName = groupText sideEffectMatch 1 in
            if isZenithName moduleName then
              [\<lparr>impModule = moduleName, specifiers = [], isType = False, impLine = i + 1\<rparr>]
            else []
          else [])"

definition lineImports :: "nat \<Rightarrow> string \<Rightarrow> ParsedImport list" where
  "lineImports i line = fromImport i line @ sideEffectImport i line"

fun parseLines :: "nat \<Rightarrow> string list \<Rightarrow> ParsedImport list" where
  "parseLines i [] = []"
| "parseLines i (line # lines) = lineImports i line @ parseLines (i + 1) lines"

definition parseZenithImports :: "string \<Rightarrow> ParsedImport list" where
  "parseZenithImports script = parseLines 0 (splitOn CHR 0x0A script)"


definition hasImport :: "ParsedImport list \<Rightarrow> string \<Rightarrow> bool" where
  "hasImport imports exportName = list_ex (\<lambda>i. exportName \<in> set (specifiers i)) imports"

section \<open>The project graph\<close>

text \<open>
  A \<open>Map\<close> is an association list in insertion order with distinct keys: \<open>set\<close> replaces
  the value of a key in place or appends a new key, \<open>get\<close> is \<^const>\<open>map_of\<close>.
\<close>

fun mapSet :: "'k \<Rightarrow> 'v \<Rightarrow> ('k \<times> 'v) list \<Rightarrow> ('k \<times> 'v) list" where
  "mapSet k v [] = [(k, v)]"
| "mapSet k v ((k', v') # kvs) = (if k' = k then (k, v) # kvs else (k', v') # mapSet k v kvs)"

definition mapHas :: "('k \<times> 'v) list \<Rightarrow> 'k \<Rightarrow> bool" where
  "mapHas mp k = (map_of mp k \<noteq> None)"

definition mapDelete :: "'k \<Rightarrow> ('k \<times> 'v) list \<Rightarrow> ('k \<times> 'v) list" where
  "mapDelete k mp = filter (\<lambda>kv. fst kv \<noteq> k) mp"

datatype ComponentType = Layout | Component | Page

record ComponentInfo =
  compName :: string
  filePath :: string
  compType :: ComponentType
  props :: "string list"

record ProjectGraph =
  root :: string
  layouts :: "(string \<times> ComponentInfo) list"
  components :: "(string \<times> ComponentInfo) list"
  pages :: "(string \<times> ComponentInfo) list"


section \<open>Diagnostics\<close>

datatype DiagnosticSeverity = Error | Warning | Information | Hint

text \<open>
  A finding. Its range is kept as the two offsets the source hands to
  \<open>document.positionAt\<close>, which turns an offset into a line and a column.
\<close>

record Diagnostic =
  severity :: DiagnosticSeverity
  rangeStart :: int
  rangeEnd :: int
  message :: string
  diagSource :: string

subsection \<open>Component references\<close>

text \<open>\<^verbatim>\<open>/<([A-Z][a-zA-Z0-9]*)(?=[\s/>])/g\<close>\<close>

definition componentPattern :: re where
  "componentPattern = cats
     [chr CHR ''<'',
      Cap 1 (Cat (Cls isUpper) (Star (Cls (\<lambda>c. isAlpha c \<or> isDigit c)))),
      Ahead (Cls (\<lambda>c. isSpace c \<or> c = CHR ''/'' \<or> c = CHR ''>''))]"

definition componentFindings :: "ProjectGraph \<Rightarrow> rmatch \<Rightarrow> Diagnostic list" where
  "componentFindings graph mt =
     (let componentName = groupText mt 1 in
      if componentName = ''ZenLink'' then []
      else if \<not> mapHas (layouts graph) componentName
              \<and> \<not> mapHas (components graph) componentName then
        [\<lparr>severity = Warning,
          rangeStart = int (mindex mt) + 1,
          rangeEnd = int (mindex mt) + 1 + int (length componentName),
          message = ''Unknown component: '' @ [CHR 0x27] @ ''<'' @ componentName @ ''>''
                    @ [CHR 0x27]
                    @ ''. Ensure it exists in src/layouts/ or src/components/'',
          diagSource = ''zenith''\<rparr>]
      else [])"

definition collectComponentDiagnostics ::
  "string \<Rightarrow> ProjectGraph option \<Rightarrow> Diagnostic list option" where
  "collectComponentDiagnostics text graph =
     (case graph of
        None \<Rightarrow> Some []
      | Some g \<Rightarrow> map_option (\<lambda>ms. concat (map (componentFindings g) ms))
                    (execAll componentPattern [] text))"

subsection \<open>Directives\<close>

text \<open>
  \<^verbatim>\<open>/(zen:(?:if|for|effect|show))\s*=\s*["']([^"']*)["']/g\<close> and
  \<^verbatim>\<open>/<slot[^>]*zen:for/g\<close>
\<close>

definition directivePattern :: re where
  "directivePattern = cats
     [Cap 1 (Cat (lit ''zen:'')
               (Or (lit ''if'') (Or (lit ''for'') (Or (lit ''effect'') (lit ''show''))))),
      Star (Cls isSpace), chr CHR ''='', Star (Cls isSpace),
      Cls isQuote, Cap 2 (Star (Cls (\<lambda>c. \<not> isQuote c))), Cls isQuote]"

definition slotForPattern :: re where
  "slotForPattern = cats [lit ''<slot'', Star (Cls (\<lambda>c. c \<noteq> CHR ''>'')), lit ''zen:for'']"

definition matchRange :: "rmatch \<Rightarrow> int \<times> int" where
  "matchRange mt = (int (mindex mt), int (mindex mt) + int (length (mtext mt)))"

definition invalidForFinding :: "rmatch \<Rightarrow> Diagnostic" where
  \<open>invalidForFinding mt =
     \<lparr>severity = Error, rangeStart = fst (matchRange mt), rangeEnd = snd (matchRange mt),
      message = ''Invalid zen:for syntax. Expected: "item in items" or "item, index in items"'',
      diagSource = ''zenith''\<rparr>\<close>

definition requiresValueFinding :: "rmatch \<Rightarrow> Diagnostic" where
  "requiresValueFinding mt =
     \<lparr>severity = Error, rangeStart = fst (matchRange mt), rangeEnd = snd (matchRange mt),
      message = groupText mt 1 @ '' requires a value'',
      diagSource = ''zenith''\<rparr>"

text \<open>The body of the first loop: the two checks follow each other, neither skips the other.\<close>

definition directiveFindings :: "rmatch \<Rightarrow> Diagnostic list" where
  "directiveFindings mt =
     (let directiveName = groupText mt 1; directiveValue = groupText mt 2 in
      (if directiveName = ''zen:for'' \<and> parseForExpression directiveValue = None
       then [invalidForFinding mt] else [])
      @ (if trim directiveValue = [] then [requiresValueFinding mt] else []))"

definition slotForFinding :: "rmatch \<Rightarrow> Diagnostic" where
  "slotForFinding mt =
     \<lparr>severity = Error, rangeStart = fst (matchRange mt), rangeEnd = snd (matchRange mt),
      message = ''zen:for cannot be used on <slot> elements'',
      diagSource = ''zenith''\<rparr>"

definition collectDirectiveDiagnostics :: "string \<Rightarrow> Diagnostic list option" where
  "collectDirectiveDiagnostics text =
     (case execAll directivePattern [] text of
        None \<Rightarrow> None
      | Some ms \<Rightarrow>
          (case execAll slotForPattern [] text of
             None \<Rightarrow> None
           | Some ss \<Rightarrow> Some (concat (map directiveFindings ms) @ map slotForFinding ss)))"

subsection \<open>Imports\<close>

text \<open>\<open>s.indexOf(t)\<close> and \<open>s.replace(t, u)\<close> for strings: the first occurrence.\<close>

fun indexOf :: "string \<Rightarrow> string \<Rightarrow> nat option" where
  "indexOf [] t = (if t = [] then Some 0 else None)"
| "indexOf (c # cs) t =
     (if startsWith (c # cs) t then Some 0 else map_option Suc (indexOf cs t))"

definition jsIndexOf :: "string \<Rightarrow> string \<Rightarrow> int" where
  "jsIndexOf s t = (case indexOf s t of None \<Rightarrow> - 1 | Some i \<Rightarrow> int i)"

definition jsIncludes :: "string \<Rightarrow> string \<Rightarrow> bool" where
  "jsIncludes s t = (indexOf s t \<noteq> None)"

definition replaceFirst :: "string \<Rightarrow> string \<Rightarrow> string \<Rightarrow> string" where
  "replaceFirst t u s =
     (case indexOf s t of None \<Rightarrow> s | Some i \<Rightarrow> take i s @ u @ drop (i + length t) s)"

text \<open>\<^verbatim>\<open>/<script[^>]*>([\s\S]*?)<\/script>/i\<close>\<close>

definition scriptPattern :: re where
  "scriptPattern = cats
     [litI ''<script'', Star (Cls (\<lambda>c. c \<noteq> CHR ''>'')), chr CHR ''>'',
      Cap 1 (StarLazy (Cls (\<lambda>c. True))), litI ''</script>'']"

text \<open>
  Two regular expressions are built at run time, from the module name and from a
  specifier: \<^verbatim>\<open>new RegExp(`import[^'"]*['"]${module.replace(':', '\\:')}['"]`)\<close> and
  \<^verbatim>\<open>new RegExp(`\\b${specifier}\\b`)\<close>. When every character of the name stands for
  itself in a pattern, the expression is the one written below. Otherwise the name
  changes the pattern (or makes \<open>new RegExp\<close> throw), and the result of compiling the
  source and matching the script is left to a parameter \<open>eng\<close>, the engine, which gets the
  source of the pattern and the text.
\<close>

type_synonym engine = "string \<Rightarrow> string \<Rightarrow> jsError + rmatch option"

definition plainChar :: "char \<Rightarrow> bool" where
  "plainChar c = (c \<notin> set ([CHR 0x5C] @ ''^$.*+?()[]{}|''))"

definition importLineSource :: "string \<Rightarrow> string" where
  \<open>importLineSource moduleName =
     ''import[^'' @ [CHR 0x27] @ ''"]*['' @ [CHR 0x27] @ ''"]''
       @ replaceFirst '':'' [CHR 0x5C, CHR '':''] moduleName
       @ ''['' @ [CHR 0x27] @ ''"]''\<close>

definition importLinePattern :: "string \<Rightarrow> re" where
  "importLinePattern moduleName = cats
     [lit ''import'', Star (Cls (\<lambda>c. \<not> isQuote c)), Cls isQuote, lit moduleName, Cls isQuote]"

definition matchImportLine :: "engine \<Rightarrow> string \<Rightarrow> string \<Rightarrow> jsError + rmatch option" where
  "matchImportLine eng moduleName scriptContent =
     (if list_all plainChar moduleName
      then Inr (rmatch (importLinePattern moduleName) scriptContent)
      else eng (importLineSource moduleName) scriptContent)"

definition specifierSource :: "string \<Rightarrow> string" where
  "specifierSource specifier = [CHR 0x5C, CHR ''b''] @ specifier @ [CHR 0x5C, CHR ''b'']"

definition specifierPattern :: "string \<Rightarrow> re" where
  "specifierPattern specifier = cats [WordB, lit specifier, WordB]"

definition matchSpecifier :: "engine \<Rightarrow> string \<Rightarrow> string \<Rightarrow> jsError + rmatch option" where
  "matchSpecifier eng specifier scriptContent =
     (if list_all plainChar specifier
      then Inr (rmatch (specifierPattern specifier) scriptContent)
      else eng (specifierSource specifier) scriptContent)"

text \<open>The first check of the loop body: an unknown plugin module.\<close>

definition unknownPluginFindings ::
  "engine \<Rightarrow> string \<Rightarrow> int \<Rightarrow> ParsedImport \<Rightarrow> jsError + Diagnostic list" where
  "unknownPluginFindings eng scriptContent scriptStart imp =
     (if isPluginModule (impModule imp) \<and> \<not> isKnown (resolveModule (impModule imp)) then
        (case matchImportLine eng (impModule imp) scriptContent of
           Inl e \<Rightarrow> Inl e
         | Inr None \<Rightarrow> Inr []
         | Inr (Some importMatch) \<Rightarrow>
             let importOffset = scriptStart + int (mindex importMatch) in
             Inr [\<lparr>severity = Information,
                   rangeStart = importOffset,
                   rangeEnd = importOffset + int (length (mtext importMatch)),
                   message = ''Unknown plugin module: '' @ [CHR 0x27] @ impModule imp
                             @ [CHR 0x27] @ ''. Make sure the plugin is installed.'',
                   diagSource = ''zenith''\<rparr>])
      else Inr [])"

text \<open>The second check: the specifiers that a known module does not export.\<close>

fun specifierFindings ::
  "engine \<Rightarrow> string \<Rightarrow> int \<Rightarrow> string \<Rightarrow> string list \<Rightarrow> string list
     \<Rightarrow> jsError + Diagnostic list" where
  "specifierFindings eng scriptContent scriptStart moduleName validExports [] = Inr []"
| "specifierFindings eng scriptContent scriptStart moduleName validExports (specifier # others) =
     (if specifier \<in> set validExports then
        specifierFindings eng scriptContent scriptStart moduleName validExports others
      else
        (case matchSpecifier eng specifier scriptContent of
           Inl e \<Rightarrow> Inl e
         | Inr specMatch \<Rightarrow>
            (case specifierFindings eng scriptContent scriptStart moduleName validExports others of
               Inl e \<Rightarrow> Inl e
             | Inr ds \<Rightarrow>
                 Inr ((case specMatch of
                         None \<Rightarrow> []
                       | Some sm \<Rightarrow>
                           let specOffset = scriptStart + int (mindex sm) in
                           [\<lparr>severity = Warning,
                             rangeStart = specOffset,
                             rangeEnd = specOffset + int (length specifier),
                             message = [CHR 0x27] @ specifier @ [CHR 0x27]
                                       @ '' is not exported from '' @ [CHR 0x27] @ moduleName
                                       @ [CHR 0x27],
                             diagSource = ''zenith''\<rparr>]) @ ds))))"

definition invalidSpecifierFindings ::
  "engine \<Rightarrow> string \<Rightarrow> int \<Rightarrow> ParsedImport \<Rightarrow> jsError + Diagnostic list" where
  "invalidSpecifierFindings eng scriptContent scriptStart imp =
     (let resolved = resolveModule (impModule imp) in
      if isKnown resolved then
        (case resolvedMetadata resolved of
           Undefined \<Rightarrow> Inr []
         | Inherited _ \<Rightarrow> Inl TypeError
         | Own md \<Rightarrow>
             specifierFindings eng scriptContent scriptStart (impModule imp)
               (map expName (metaExports md)) (specifiers imp))
      else Inr [])"

definition importFindings ::
  "engine \<Rightarrow> string \<Rightarrow> int \<Rightarrow> ParsedImport \<Rightarrow> jsError + Diagnostic list" where
  "importFindings eng scriptContent scriptStart imp =
     (case unknownPluginFindings eng scriptContent scriptStart imp of
        Inl e \<Rightarrow> Inl e
      | Inr ds1 \<Rightarrow>
         (case invalidSpecifierFindings eng scriptContent scriptStart imp of
            Inl e \<Rightarrow> Inl e
          | Inr ds2 \<Rightarrow> Inr (ds1 @ ds2)))"

fun importLoop ::
  "engine \<Rightarrow> string \<Rightarrow> int \<Rightarrow> ParsedImport list \<Rightarrow> jsError + Diagnostic list" where
  "importLoop eng scriptContent scriptStart [] = Inr []"
| "importLoop eng scriptContent scriptStart (imp # imports) =
     (case importFindings eng scriptContent scriptStart imp of
        Inl e \<Rightarrow> Inl e
      | Inr ds \<Rightarrow>
         (case importLoop eng scriptContent scriptStart imports of
            Inl e \<Rightarrow> Inl e
          | Inr others \<Rightarrow> Inr (ds @ others)))"

definition collectImportDiagnostics :: "engine \<Rightarrow> string \<Rightarrow> jsError + Diagnostic list" where
  "collectImportDiagnostics eng text =
     (case rmatch scriptPattern text of
        None \<Rightarrow> Inr []
      | Some scriptMatch \<Rightarrow>
          let scriptContent = groupText scriptMatch 1;
              scriptStart = int (mindex scriptMatch)
                            + jsIndexOf (mtext scriptMatch) scriptContent
          in importLoop eng scriptContent scriptStart (parseZenithImports scriptContent))"

subsection \<open>Expressions\<close>

text \<open>\<^verbatim>\<open>/\{([^}]+)\}/g\<close> and \<^verbatim>\<open>/\bwith\s*\(/\<close>\<close>

definition expressionPattern :: re where
  "expressionPattern = cats
     [chr CHR ''{'', Cap 1 (Plus (Cls (\<lambda>c. c \<noteq> CHR ''}''))), chr CHR ''}'']"

definition withPattern :: re where
  "withPattern = cats [WordB, lit ''with'', Star (Cls isSpace), chr CHR ''('']"

definition expressionFindings :: "rmatch \<Rightarrow> Diagnostic list" where
  "expressionFindings mt =
     (let expression = groupText mt 1 in
      (if jsIncludes expression ''eval('' \<or> jsIncludes expression ''Function('' then
         [\<lparr>severity = Error, rangeStart = fst (matchRange mt), rangeEnd = snd (matchRange mt),
           message = ''Dangerous pattern detected: eval() and Function() are not allowed in expressions'',
           diagSource = ''zenith''\<rparr>]
       else [])
      @ (if rmatch withPattern expression \<noteq> None then
           [\<lparr>severity = Error, rangeStart = fst (matchRange mt), rangeEnd = snd (matchRange mt),
             message = [CHR 0x27] @ ''with'' @ [CHR 0x27]
                       @ '' statement is not allowed in expressions'',
             diagSource = ''zenith''\<rparr>]
         else []))"

definition collectExpressionDiagnostics :: "string \<Rightarrow> Diagnostic list option" where
  "collectExpressionDiagnostics text =
     map_option (\<lambda>ms. concat (map expressionFindings ms)) (execAll expressionPattern [] text)"

subsection \<open>All findings of a document\<close>

text \<open>
  The four collectors run one after the other on the same text. The result is \<open>None\<close>
  when a loop never ends, \<open>Some (Inl e)\<close> when a collector throws, and the findings in
  the order of the collectors otherwise.
\<close>

definition collectDiagnostics ::
  "engine \<Rightarrow> string \<Rightarrow> ProjectGraph option \<Rightarrow> (jsError + Diagnostic list) option" where
  "collectDiagnostics eng text graph =
     (case collectComponentDiagnostics text graph of
        None \<Rightarrow> None
      | Some cs \<Rightarrow>
         (case collectDirectiveDiagnostics text of
            None \<Rightarrow> None
          | Some ds \<Rightarrow>
             (case collectImportDiagnostics eng text of
                Inl e \<Rightarrow> Some (Inl e)
              | Inr is \<Rightarrow>
                 (case collectExpressionDiagnostics text of
                    None \<Rightarrow> None
                  | Some es \<Rightarrow> Some (Inr (cs @ ds @ is @ es))))))"

section \<open>Router metadata\<close>


record ZenLinkPropMetadata =
  propName :: string
  propType :: string
  required :: bool
  propDescription :: string

record RouteFieldMetadata =
  fieldName :: string
  fieldType :: string
  fieldDescription :: string


definition ZENLINK_PROPS :: "ZenLinkPropMetadata list" where
  \<open>ZENLINK_PROPS =
     [\<lparr>propName = ''to'', propType = ''string'', required = True,
       propDescription = ''The route path to navigate to.''\<rparr>,
      \<lparr>propName = ''preload'', propType = ''boolean'', required = False,
       propDescription = ''Whether to prefetch the route on hover.''\<rparr>,
      \<lparr>propName = ''replace'', propType = ''boolean'', required = False,
       propDescription = ''Whether to replace the current history entry instead of pushing a new one.''\<rparr>,
      \<lparr>propName = ''class'', propType = ''string'', required = False,
       propDescription = ''CSS class to apply to the link.''\<rparr>,
      \<lparr>propName = ''activeClass'', propType = ''string'', required = False,
       propDescription = ''CSS class to apply when the link is active.''\<rparr>]\<close>

definition ROUTE_FIELDS :: "RouteFieldMetadata list" where
  \<open>ROUTE_FIELDS =
     [\<lparr>fieldName = ''path'', fieldType = ''string'',
       fieldDescription = ''The current route path (e.g., "/blog/my-post").''\<rparr>,
      \<lparr>fieldName = ''params'', fieldType = ''Record<string, string>'',
       fieldDescription = ''Dynamic route parameters (e.g., { slug: "my-post" }).''\<rparr>,
      \<lparr>fieldName = ''query'', fieldType = ''Record<string, string>'',
       fieldDescription = ''Query string parameters (e.g., { page: "1" }).''\<rparr>]\<close>



section \<open>The server: vocabularies\<close>

datatype CompletionItemKind =
  CIKKeyword | CIKFunction | CIKVariable | CIKModule | CIKProperty | CIKClass | CIKEvent





definition HTML_ATTRIBUTES :: "string list" where
  "HTML_ATTRIBUTES =
     [''id'', ''class'', ''style'', ''title'', ''href'', ''src'', ''alt'',
      ''type'', ''name'', ''value'', ''placeholder'', ''disabled'',
      ''checked'', ''readonly'', ''required'', ''hidden'']"

definition DOM_EVENTS :: "string list" where
  "DOM_EVENTS =
     [''click'', ''change'', ''input'', ''submit'', ''keydown'', ''keyup'',
      ''keypress'', ''focus'', ''blur'', ''mouseover'', ''mouseout'',
      ''mouseenter'', ''mouseleave'']"

section \<open>The server: symbols of the script\<close>





text \<open>
  \<open>extractFunctions\<close>:
  \<^verbatim>\<open>/(async\s+)?function\s+([a-zA-Z_$][a-zA-Z0-9_$]*)\s*\(([^)]*)\)/g\<close> and
  \<^verbatim>\<open>/(?:const|let)\s+([a-zA-Z_$][a-zA-Z0-9_$]*)\s*=\s*(async\s+)?\([^)]*\)\s*=>/g\<close>
\<close>

record FunctionInfo =
  fnName :: string
  params :: string
  isAsync :: bool






text \<open>\<open>extractLoopVariables\<close>: \<^verbatim>\<open>/zen:for\s*=\s*["']([^"']+)["']/g\<close>\<close>

definition loopPattern :: re where
  "loopPattern = cats
     [lit ''zen:for'', Star (Cls isSpace), chr CHR ''='', Star (Cls isSpace),
      Cls isQuote, Cap 1 (Plus (Cls (\<lambda>c. \<not> isQuote c))), Cls isQuote]"

definition loopVariablesOf :: "rmatch \<Rightarrow> string list" where
  "loopVariablesOf mt =
     (case parseForExpression (groupText mt 1) of
        None \<Rightarrow> []
      | Some parsed \<Rightarrow>
          itemVar parsed
            # (case indexVar parsed of None \<Rightarrow> [] | Some i \<Rightarrow> if i \<noteq> [] then [i] else []))"

definition extractLoopVariables :: "string \<Rightarrow> string list option" where
  "extractLoopVariables text =
     map_option (\<lambda>ms. concat (map loopVariablesOf ms)) (execAll loopPattern [] text)"


section \<open>The server: the region of a position\<close>

text \<open>
  \<open>s.lastIndexOf(c)\<close> (\<open>-1\<close> when \<open>c\<close> does not occur), \<open>s.lastIndexOf(c, from)\<close> (only
  the indices up to \<open>from\<close>, a negative \<open>from\<close> counting as 0), and \<open>s.substring\<close> (each
  bound clamped to the string, the two swapped when the first is the larger).
\<close>

definition lastIndexOf :: "string \<Rightarrow> char \<Rightarrow> int" where
  "lastIndexOf s c = int (length (dropWhile (\<lambda>x. x \<noteq> c) (rev s))) - 1"

definition lastIndexOfFrom :: "string \<Rightarrow> char \<Rightarrow> int \<Rightarrow> int" where
  "lastIndexOfFrom s c fromIndex = lastIndexOf (take (nat (max fromIndex 0) + 1) s) c"

definition substringFrom :: "string \<Rightarrow> int \<Rightarrow> string" where
  "substringFrom s a = drop (nat a) s"

definition substring :: "string \<Rightarrow> int \<Rightarrow> int \<Rightarrow> string" where
  "substring s a b =
     (let n = int (length s);
          a' = min (max a 0) n;
          b' = min (max b 0) n
      in take (nat (max a' b' - min a' b')) (drop (nat (min a' b')) s))"

text \<open>
  The markers of the script and style blocks, \<^verbatim>\<open>/<script[^>]*>/gi\<close>,
  \<^verbatim>\<open>/<\/script>/gi\<close>, \<^verbatim>\<open>/<style[^>]*>/gi\<close>, \<^verbatim>\<open>/<\/style>/gi\<close>; the open attribute
  value \<^verbatim>\<open>/=["'][^"']*$/\<close>; the tag name \<^verbatim>\<open>/<\/?([A-Za-z][A-Za-z0-9-]*)/\<close>; and the
  word being typed \<^verbatim>\<open>/[a-zA-Z_$:@][a-zA-Z0-9_$:-]*$/\<close>.
\<close>

definition scriptOpenPattern :: re where
  "scriptOpenPattern = cats [litI ''<script'', Star (Cls (\<lambda>c. c \<noteq> CHR ''>'')), chr CHR ''>'']"

definition scriptClosePattern :: re where
  "scriptClosePattern = litI ''</script>''"

definition styleOpenPattern :: re where
  "styleOpenPattern = cats [litI ''<style'', Star (Cls (\<lambda>c. c \<noteq> CHR ''>'')), chr CHR ''>'']"

definition styleClosePattern :: re where
  "styleClosePattern = litI ''</style>''"

definition quotePattern :: re where
  "quotePattern = cats [chr CHR ''='', Cls isQuote, Star (Cls (\<lambda>c. \<not> isQuote c)), Eol]"

definition tagNamePattern :: re where
  "tagNamePattern = cats
     [chr CHR ''<'', Opt (chr CHR ''/''),
      Cap 1 (Cat (Cls isAlpha) (Star (Cls (\<lambda>c. isAlpha c \<or> isDigit c \<or> c = CHR ''-''))))]"

definition wordPattern :: re where
  "wordPattern = cats
     [Cls (\<lambda>c. isAlpha c \<or> c = CHR ''_'' \<or> c = CHR ''$'' \<or> c = CHR '':'' \<or> c = CHR ''@''),
      Star (Cls (\<lambda>c. isAlpha c \<or> isDigit c \<or> c = CHR ''_'' \<or> c = CHR ''$'' \<or> c = CHR '':''
                    \<or> c = CHR ''-'')),
      Eol]"

record PositionContext =
  inScript :: bool
  inStyle :: bool
  inTag :: bool
  inExpression :: bool
  inTemplate :: bool
  inAttributeValue :: bool
  tagName :: "string option"
  currentWord :: string
  afterAt :: bool
  afterColon :: bool

definition getPositionContext :: "string \<Rightarrow> nat \<Rightarrow> PositionContext" where
  "getPositionContext text offset =
     (let before = take offset text;
          scriptOpens = length (matchAll scriptOpenPattern [] before);
          scriptCloses = length (matchAll scriptClosePattern [] before);
          inScript = (scriptOpens > scriptCloses);
          styleOpens = length (matchAll styleOpenPattern [] before);
          styleCloses = length (matchAll styleClosePattern [] before);
          inStyle = (styleOpens > styleCloses);
          lastTagOpen = lastIndexOf before CHR ''<'';
          lastTagClose = lastIndexOf before CHR ''>'';
          inTag = (lastTagOpen > lastTagClose);
          lastBraceOpen = lastIndexOf before CHR ''{'';
          lastBraceClose = lastIndexOf before CHR ''}'';
          inExpression = (lastBraceOpen > lastBraceClose \<and> \<not> inScript \<and> \<not> inStyle);
          inTemplate = (\<not> inScript \<and> \<not> inStyle);
          afterLastTag = substringFrom before lastTagOpen;
          inAttributeValue = (inTag \<and> rmatch quotePattern afterLastTag \<noteq> None);
          tagName =
            (if inTag then
               (case rmatch tagNamePattern (substringFrom before lastTagOpen) of
                  None \<Rightarrow> None
                | Some tagMatch \<Rightarrow> Some (groupText tagMatch 1))
             else None);
          currentWord =
            (case rmatch wordPattern before of None \<Rightarrow> [] | Some wordMatch \<Rightarrow> mtext wordMatch);
          afterAt = (endsWith before ''@'' \<or> startsWith currentWord ''@'');
          afterColon = (endsWith before '':''
                        \<or> (startsWith currentWord '':'' \<and> \<not> startsWith currentWord '':''))
      in \<lparr>inScript = inScript, inStyle = inStyle, inTag = inTag, inExpression = inExpression,
          inTemplate = inTemplate, inAttributeValue = inAttributeValue, tagName = tagName,
          currentWord = currentWord, afterAt = afterAt, afterColon = afterColon\<rparr>)"

section \<open>The server: the cache of project graphs\<close>

text \<open>
  The file system and the path arithmetic of the platform are parameters: whether a path
  exists, \<open>path.join\<close>, and the scan of a project's directories that \<open>buildProjectGraph\<close>
  makes. \<open>path.dirname\<close> is modelled, in its POSIX form, because the loop of
  \<open>detectProjectRoot\<close> ends only through it: it drops the last segment of a path, and gives
  \<open>.\<close> or \<open>/\<close> when there is none.
\<close>

record platform =
  existsSync :: "string \<Rightarrow> bool"
  pathJoin :: "string \<Rightarrow> string \<Rightarrow> string"
  buildProjectGraph :: "string \<Rightarrow> ProjectGraph"

definition dirname :: "string \<Rightarrow> string" where
  "dirname path =
     (if path = [] then ''.''
      else
        let hasRoot = (hd path = CHR ''/'');
            afterSegment =
              dropWhile (\<lambda>c. c \<noteq> CHR ''/'')
                (dropWhile (\<lambda>c. c = CHR ''/'') (rev (tl path)));
            endIndex = length afterSegment
        in if afterSegment = [] then (if hasRoot then ''/'' else ''.'')
           else if hasRoot \<and> endIndex = 1 then ''//''
           else take endIndex path)"

text \<open>
  The measure that \<open>dirname\<close> decreases until it reaches \<open>.\<close> or \<open>/\<close>, and the part of a
  path (reversed) that lies before its last segment.
\<close>

definition pathMeasure :: "string \<Rightarrow> nat" where
  "pathMeasure p =
     (if p = [] then 3 else 2 * length p + (if p = ''.'' \<or> p = ''/'' then 0 else 1))"

definition afterSegment :: "string \<Rightarrow> string" where
  "afterSegment p = dropWhile (\<lambda>c. c \<noteq> CHR ''/'') (dropWhile (\<lambda>c. c = CHR ''/'') (rev (tl p)))"

function detectProjectRoot :: "platform \<Rightarrow> string \<Rightarrow> string option" where
  "detectProjectRoot pf current =
     (if current = dirname current then None
      else if existsSync pf (pathJoin pf current ''zenith.config.ts'') then Some current
      else
        let srcDir = pathJoin pf current ''src'' in
        if existsSync pf srcDir
           \<and> (existsSync pf (pathJoin pf srcDir ''pages'')
                \<or> existsSync pf (pathJoin pf srcDir ''layouts''))
        then Some current
        else
          let appDir = pathJoin pf current ''app'' in
          if existsSync pf appDir
             \<and> (existsSync pf (pathJoin pf appDir ''pages'')
                  \<or> existsSync pf (pathJoin pf appDir ''layouts''))
          then Some current
          else detectProjectRoot pf (dirname current))"
  by pat_completeness auto

lemma dirname_nonempty:
  "p \<noteq> [] \<Longrightarrow> dirname p =
     (if afterSegment p = [] then (if hd p = CHR ''/'' then ''/'' else ''.'')
      else if hd p = CHR ''/'' \<and> length (afterSegment p) = 1 then ''//''
      else take (length (afterSegment p)) p)"
  unfolding dirname_def afterSegment_def Let_def by (simp only: if_False)

lemma pm1: "pathMeasure ''.'' = 2" "pathMeasure ''/'' = 2" "pathMeasure ''//'' = 5" "pathMeasure [] = 3"
  by (simp_all add: pathMeasure_def)

lemma pm2: "2 * length p \<le> pathMeasure p"
  by (simp add: pathMeasure_def)

lemma pm3: "p \<noteq> [] \<Longrightarrow> pathMeasure p \<le> 2 * length p + 1"
  by (simp add: pathMeasure_def)

lemma pm4: "p \<noteq> [] \<Longrightarrow> p \<noteq> ''.'' \<Longrightarrow> p \<noteq> ''/'' \<Longrightarrow> pathMeasure p = 2 * length p + 1"
  by (simp add: pathMeasure_def)


lemma dropWhile_shorter:
  "b \<noteq> [] \<Longrightarrow> \<not> P (hd b) \<Longrightarrow> length (dropWhile (\<lambda>c. \<not> P c) b) < length b"
  by (cases b) (simp_all add: le_imp_less_Suc length_dropWhile_le)

lemma afterSegment_shorter:
  assumes "afterSegment p \<noteq> []"
  shows "length (afterSegment p) + 2 \<le> length p"
proof -
  define r where "r = rev (tl p)"
  define b where "b = dropWhile (\<lambda>c. c = CHR ''/'') r"
  have a: "afterSegment p = dropWhile (\<lambda>c. \<not> c = CHR ''/'') b"
    unfolding afterSegment_def b_def r_def ..
  have ne: "b \<noteq> []"
  proof
    assume "b = []"
    then have "afterSegment p = []" unfolding a by simp
    with assms show False ..
  qed
  have "\<not> hd b = CHR ''/''"
    using ne unfolding b_def by (rule hd_dropWhile)
  with ne have "length (dropWhile (\<lambda>c. \<not> c = CHR ''/'') b) < length b"
    by (rule dropWhile_shorter)
  then have 1: "length (afterSegment p) < length b" unfolding a .
  have 2: "length b \<le> length r" unfolding b_def by (rule length_dropWhile_le)
  have 3: "length r = length p - 1" unfolding r_def by simp
  from 1 2 3 show ?thesis by linarith
qed

lemma l1: "p \<noteq> [] \<Longrightarrow> hd p = CHR ''/'' \<Longrightarrow> p \<noteq> ''/'' \<Longrightarrow> 2 \<le> length p"
proof -
  assume a: "p \<noteq> []" "hd p = CHR ''/''" "p \<noteq> ''/''"
  then obtain t where p: "p = CHR ''/'' # t" by (cases p) simp_all
  with a(3) have "t \<noteq> []" by simp
  with p show ?thesis by (cases t) simp_all
qed

lemma l2: "hd p \<noteq> CHR ''/'' \<Longrightarrow> p \<noteq> ''/''"
  by (cases p) simp_all

lemma dirname_decreases:
  assumes "p \<noteq> dirname p"
  shows "pathMeasure (dirname p) < pathMeasure p"
proof (cases "p = []")
  case True
  then show ?thesis by (simp add: dirname_def pm1)
next
  case False
  note d = dirname_nonempty [OF False]
  show ?thesis
  proof (cases "afterSegment p = []")
    case True
    show ?thesis
    proof (cases "hd p = CHR ''/''")
      case h: True
      with True d have e: "dirname p = ''/''" by simp
      with assms have n: "p \<noteq> ''/''" by simp
      from l1 [OF False h n] pm2 [of p] have "4 \<le> pathMeasure p" by linarith
      then show ?thesis unfolding e pm1 by simp
    next
      case h: False
      with True d have e: "dirname p = ''.''" by simp
      with assms have n: "p \<noteq> ''.''" by simp
      from False have "1 \<le> length p" by (cases p) simp_all
      with pm4 [OF False n l2 [OF h]] have "3 \<le> pathMeasure p" by linarith
      then show ?thesis unfolding e pm1 by simp
    qed
  next
    case ne: False
    note lt = afterSegment_shorter [OF ne]
    show ?thesis
    proof (cases "hd p = CHR ''/'' \<and> length (afterSegment p) = 1")
      case True
      with ne d have e: "dirname p = ''//''" by simp
      from lt True have "3 \<le> length p" by simp
      with pm2 [of p] have "6 \<le> pathMeasure p" by linarith
      then show ?thesis unfolding e pm1 by simp
    next
      case nt: False
      with ne d have e: "dirname p = take (length (afterSegment p)) p" by auto
      from ne have pos: "0 < length (afterSegment p)" by simp
      with lt False have t: "take (length (afterSegment p)) p \<noteq> []" by auto
      from lt have l: "length (take (length (afterSegment p)) p) = length (afterSegment p)" by simp
      from pm3 [OF t] l have "pathMeasure (take (length (afterSegment p)) p) \<le> 2 * length (afterSegment p) + 1"
        by simp
      with lt pm2 [of p] show ?thesis unfolding e by linarith
    qed
  qed
qed

termination detectProjectRoot
  by (relation "measure (\<lambda>(pf, current). pathMeasure current)")
     (auto simp: dirname_decreases)

declare detectProjectRoot.simps [simp del]

text \<open>
  \<open>getProjectGraph\<close> builds the graph of a root on the first request and keeps it in the
  cache; \<open>invalidateProjectGraph\<close> deletes the entry of the root of the changed file. An
  empty root is falsy and counts as no root. Both return the cache they leave behind.
\<close>

type_synonym graphCache = "(string \<times> ProjectGraph) list"

definition projectRootOf :: "platform \<Rightarrow> string \<Rightarrow> string option" where
  "projectRootOf pf uri =
     (let filePath = replaceFirst ''file://'' [] uri in
      detectProjectRoot pf (dirname filePath))"

definition getProjectGraph ::
  "platform \<Rightarrow> string \<Rightarrow> graphCache \<Rightarrow> ProjectGraph option \<times> graphCache" where
  "getProjectGraph pf docUri projectGraphs =
     (case projectRootOf pf docUri of
        None \<Rightarrow> (None, projectGraphs)
      | Some projectRoot \<Rightarrow>
          if projectRoot = [] then (None, projectGraphs)
          else
            let projectGraphs' =
                  (if \<not> mapHas projectGraphs projectRoot
                   then mapSet projectRoot (buildProjectGraph pf projectRoot) projectGraphs
                   else projectGraphs)
            in (map_of projectGraphs' projectRoot, projectGraphs'))"

definition invalidateProjectGraph :: "platform \<Rightarrow> string \<Rightarrow> graphCache \<Rightarrow> graphCache" where
  "invalidateProjectGraph pf uri projectGraphs =
     (case projectRootOf pf uri of
        None \<Rightarrow> projectGraphs
      | Some projectRoot \<Rightarrow>
          if projectRoot = [] then projectGraphs
          else mapDelete projectRoot projectGraphs)"

text \<open>The first loop of \<open>onDidChangeWatchedFiles\<close>: every changed file invalidates.\<close>

definition invalidateAll :: "platform \<Rightarrow> string list \<Rightarrow> graphCache \<Rightarrow> graphCache" where
  "invalidateAll pf changes projectGraphs =
     foldl (\<lambda>cache uri. invalidateProjectGraph pf uri cache) projectGraphs changes"

section \<open>The server: hover\<close>

















section \<open>Example documents\<close>

definition blankForDocument :: string where
  \<open>blankForDocument = ''<li zen:for="  ">''\<close>

definition knownPluginDocument :: string where
  \<open>knownPluginDocument = ''<script>import { bogus } from \'zenith:content\'</script>''\<close>

definition unknownPluginDocument :: string where
  \<open>unknownPluginDocument = ''<script>import { x } from \'zenith:missing\'</script>''\<close>

definition noEngine :: engine where
  "noEngine src text = Inl SyntaxError"

definition examplePlatform :: platform where
  "examplePlatform =
     \<lparr>existsSync = (\<lambda>p. p \<in> set [''/work/a/zenith.config.ts'', ''/work/b/src'',
                                     ''/work/b/src/pages'']),
      pathJoin = (\<lambda>a b. a @ ''/'' @ b),
      buildProjectGraph = (\<lambda>r. \<lparr>root = r, layouts = [], components = [], pages = []\<rparr>)\<rparr>"

definition exampleCache :: graphCache where
  "exampleCache =
     [(''/work/a'', \<lparr>root = ''/work/a'', layouts = [], components = [], pages = []\<rparr>),
      (''/work/b'', \<lparr>root = ''/work/b'', layouts = [], components = [], pages = []\<rparr>)]"

text \<open>
  A paragraph whose \<open>title\<close> is the text \<open>zen:if=\<close> and which carries an iteration
  directive with an empty value; and a document that imports a namespace from a core
  module.
\<close>

definition swallowedForDocument :: string where
  \<open>swallowedForDocument = ''<p title=\'zen:if=\' zen:for="">''\<close>

definition namespaceImportDocument :: string where
  \<open>namespaceImportDocument = ''<script>import * as Z from \'zenith\'</script><li zen:for="">''\<close>


section \<open>Results\<close>

subsection \<open>The matcher\<close>

lemma extends_length: "extends st st' \<Longrightarrow> length (rest st') \<le> length (rest st)"
  by (auto simp: extends_def)

lemma consumes_run:
  "consumes r \<Longrightarrow> st' \<in> set (run r st) \<Longrightarrow> length (rest st') < length (rest st)"
proof (induction r arbitrary: st st')
  case (Cls P)
  then show ?case by (cases "rest st") (auto split: if_splits)
next
  case (Cat a b)
  from Cat.prems(2) obtain m where m: "m \<in> set (run a st)" "st' \<in> set (run b m)" by auto
  from m have le: "length (rest m) \<le> length (rest st)" "length (rest st') \<le> length (rest m)"
    using run_extends extends_length by blast+
  from Cat.prems(1) have "consumes a \<or> consumes b" by simp
  then show ?case
  proof
    assume "consumes a"
    from Cat.IH(1) [OF this m(1)] le show ?thesis by simp
  next
    assume "consumes b"
    from Cat.IH(2) [OF this m(2)] le show ?thesis by simp
  qed
next
  case (Or a b)
  then show ?case by auto
next
  case (Cap n a)
  then show ?case by auto
qed simp_all

lemma searchFrom_matchHere:
  "searchFrom r p s = Some x \<Longrightarrow> \<exists>q t. matchHere r q t = Some x"
proof (induction r p s rule: searchFrom.induct)
  case (1 r p)
  then show ?case by auto
next
  case (2 r p c cs)
  then show ?case by (cases "matchHere r p (c # cs)") auto
qed

lemma consumes_matchHere:
  assumes "consumes r" and "matchHere r q t = Some (mt, p', s')"
  shows "mtext mt \<noteq> []"
proof (cases "run r (MState q t Map.empty)")
  case Nil
  with assms(2) show ?thesis by (simp add: matchHere_def)
next
  case (Cons st' sts)
  with assms(2) have s': "s' = rest st'" by (auto simp: matchHere_def)
  from Cons have "st' \<in> set (run r (MState q t Map.empty))" by simp
  from consumes_run [OF assms(1) this] s' have "length s' < length t" by simp
  moreover from matchHere_extends [OF assms(2)] have "t = mtext mt @ s'" by auto
  ultimately show ?thesis by auto
qed

lemma consumes_searchFrom:
  assumes "consumes r" and "searchFrom r p s = Some (mt, p', s')"
  shows "mtext mt \<noteq> []"
  using searchFrom_matchHere [OF assms(2)] consumes_matchHere [OF assms(1)] by blast

lemma execAll_matchAll: "consumes r \<Longrightarrow> execAll r p s = Some (matchAll r p s)"
proof (induction r p s rule: matchAll.induct)
  case (1 r p s)
  show ?case
  proof (cases "searchFrom r p s")
    case None
    then show ?thesis by (simp add: execAll.simps [of r p s] matchAll.simps [of r p s])
  next
    case (Some x)
    obtain mt p' s' where x: "x = (mt, p', s')" by (cases x) auto
    from consumes_searchFrom [OF "1.prems"] Some x have ne: "mtext mt \<noteq> []" by simp
    from "1.IH"(2) [OF Some _ _ ne "1.prems"] x
    have "execAll r p' s' = Some (matchAll r p' s')" by simp
    with Some x ne show ?thesis
      by (simp add: execAll.simps [of r p s] matchAll.simps [of r p s])
  qed
qed


text \<open>
  C3. The iteration-directive parser accepts \<open>"item in items"\<close> and
  \<open>"item, index in items"\<close>, binding the item variable, the optional index variable and
  the source, and returns null for \<open>"in items"\<close>, \<open>"item items"\<close> and the empty string.
\<close>

theorem parseForExpression_examples:
  "parseForExpression ''item in items''
     = Some \<lparr>itemVar = ''item'', indexVar = None, source = ''items''\<rparr>
   \<and> parseForExpression ''item, index in items''
     = Some \<lparr>itemVar = ''item'', indexVar = Some ''index'', source = ''items''\<rparr>
   \<and> parseForExpression ''in items'' = None
   \<and> parseForExpression ''item items'' = None
   \<and> parseForExpression '''' = None"
  by code_simp

text \<open>
  C2. \<open>resolveModule\<close> is total and classifies every specifier as exactly one of core,
  plugin or external: core exactly when the specifier is a key of the core table, plugin
  exactly when it is not and begins with \<open>zenith:\<close>, external otherwise; and a core result
  always has \<open>isKnown\<close> true.
\<close>

theorem resolveModule_classifies:
  "resolvedModule (resolveModule moduleName) = moduleName
   \<and> (resolvedKind (resolveModule moduleName) = Core \<longleftrightarrow> isCoreModule moduleName)
   \<and> (resolvedKind (resolveModule moduleName) = Plugin
        \<longleftrightarrow> \<not> isCoreModule moduleName \<and> isPluginModule moduleName)
   \<and> (resolvedKind (resolveModule moduleName) = External
        \<longleftrightarrow> \<not> isCoreModule moduleName \<and> \<not> isPluginModule moduleName)
   \<and> (resolvedKind (resolveModule moduleName) = Core
        \<longrightarrow> isKnown (resolveModule moduleName))"
  by (simp add: resolveModule_def)

theorem resolveModule_classifies_witness:
  "resolvedKind (resolveModule ''zenith/router'') = Core
   \<and> isKnown (resolveModule ''zenith/router'')
   \<and> resolvedKind (resolveModule ''zenith:content'') = Plugin
   \<and> isKnown (resolveModule ''zenith:content'')
   \<and> resolvedKind (resolveModule ''zenith:missing'') = Plugin
   \<and> \<not> isKnown (resolveModule ''zenith:missing'')
   \<and> resolvedKind (resolveModule ''react'') = External
   \<and> \<not> isKnown (resolveModule ''react'')"
proof -
  have core: "isCoreModule ''zenith/router''"
    by code_simp
  have notcore: "\<not> isCoreModule ''zenith:content''" "\<not> isCoreModule ''zenith:missing''"
    "\<not> isCoreModule ''react''"
    by code_simp+
  have plug: "isPluginModule ''zenith:content''" "isPluginModule ''zenith:missing''"
    "\<not> isPluginModule ''react''"
    by code_simp+
  have known: "isKnown (resolveModule ''zenith:content'')"
    "\<not> isKnown (resolveModule ''zenith:missing'')" "\<not> isKnown (resolveModule ''react'')"
    by code_simp+
  show ?thesis
    using resolveModule_classifies [of "''zenith/router''"]
      resolveModule_classifies [of "''zenith:content''"]
      resolveModule_classifies [of "''zenith:missing''"]
      resolveModule_classifies [of "''react''"]
      core notcore plug known
    by simp
qed

subsection \<open>The imports of a script\<close>

lemma fromImport_cases:
  "fromImport i line = []
   \<or> (\<exists>imp. fromImport i line = [imp] \<and> impLine imp = i + 1
         \<and> rmatch importPattern line \<noteq> None)"
  by (auto simp: fromImport_def Let_def split: option.splits)

lemma sideEffectImport_cases:
  "sideEffectImport i line = []
   \<or> (\<exists>imp. sideEffectImport i line = [imp] \<and> impLine imp = i + 1
         \<and> specifiers imp = [] \<and> rmatch importPattern line = None)"
  by (auto simp: sideEffectImport_def Let_def split: option.splits)

lemma lineImports_cases:
  "lineImports i line = []
   \<or> (\<exists>imp. lineImports i line = [imp] \<and> impLine imp = i + 1)"
  unfolding lineImports_def
  using fromImport_cases [of i line] sideEffectImport_cases [of i line] by auto

lemma parseLines_bounds:
  "imp \<in> set (parseLines i ls) \<Longrightarrow> i < impLine imp \<and> impLine imp \<le> i + length ls"
proof (induction ls arbitrary: i)
  case Nil
  then show ?case by simp
next
  case (Cons l ls)
  from Cons.prems have "imp \<in> set (lineImports i l) \<or> imp \<in> set (parseLines (i + 1) ls)"
    by auto
  then show ?case
  proof
    assume a: "imp \<in> set (lineImports i l)"
    with lineImports_cases [of i l] have "impLine imp = i + 1" by auto
    then show ?thesis by simp
  next
    assume "imp \<in> set (parseLines (i + 1) ls)"
    from Cons.IH [OF this] show ?thesis by simp
  qed
qed

lemma parseLines_sorted: "sorted_wrt (<) (map impLine (parseLines i ls))"
proof (induction ls arbitrary: i)
  case Nil
  then show ?case by simp
next
  case (Cons l ls)
  have later: "\<forall>imp \<in> set (parseLines (i + 1) ls). i + 1 < impLine imp"
    using parseLines_bounds by blast
  have "parseLines i (l # ls) = (lineImports i l) @ parseLines (i + 1) ls"
    by simp
  moreover have "sorted_wrt (<) (map impLine ((lineImports i l) @ parseLines (i + 1) ls))"
    using lineImports_cases [of i l] Cons.IH [of "i + 1"] later
    by (auto simp: sorted_wrt_append)
  ultimately show ?case by simp
qed

lemma parseLines_enumerate:
  "parseLines i ls = concat (map (\<lambda>(k, line). lineImports k line) (enumerate i ls))"
  by (induction ls arbitrary: i) auto

lemma sorted_filter_le1:
  fixes f :: "'a \<Rightarrow> nat"
  assumes "sorted_wrt (<) (map f xs)"
  shows "length (filter (\<lambda>x. f x = n) xs) \<le> 1"
  using assms
proof (induction xs)
  case Nil
  then show ?case by simp
next
  case (Cons x xs)
  show ?case
  proof (cases "f x = n")
    case True
    with Cons.prems have "\<forall>y \<in> set xs. f y \<noteq> n" by auto
    then have "filter (\<lambda>x. f x = n) xs = []" by (simp add: filter_empty_conv)
    with True show ?thesis by simp
  next
    case False
    with Cons show ?thesis by simp
  qed
qed

lemma lineImports_impLine: "imp \<in> set (lineImports i line) \<Longrightarrow> impLine imp = i + 1"
  using lineImports_cases [of i line] by auto

lemma filter_lineImports:
  "filter (\<lambda>imp. impLine imp = Suc n) (lineImports i line)
     = (if i = n then lineImports i line else [])"
proof (cases "i = n")
  case True
  then have "\<forall>imp \<in> set (lineImports i line). impLine imp = Suc n"
    using lineImports_impLine by fastforce
  with True show ?thesis by simp
next
  case False
  then have "\<forall>imp \<in> set (lineImports i line). impLine imp \<noteq> Suc n"
    using lineImports_impLine by fastforce
  with False show ?thesis by (simp add: filter_empty_conv)
qed

lemma filter_parseLines:
  "filter (\<lambda>imp. impLine imp = Suc n) (parseLines k ls)
     = (if k \<le> n \<and> n < k + length ls then lineImports n (ls ! (n - k)) else [])"
proof (induction ls arbitrary: k)
  case Nil
  have "\<not> (k \<le> n \<and> n < k + length ([] :: string list))" by simp
  then show ?case by (simp only: parseLines.simps filter.simps if_False)
next
  case (Cons l ls)
  have "filter (\<lambda>imp. impLine imp = Suc n) (parseLines k (l # ls))
        = (if k = n then lineImports k l else [])
          @ (if Suc k \<le> n \<and> n < Suc k + length ls then lineImports n (ls ! (n - Suc k)) else [])"
    using Cons.IH [of "Suc k"] by (simp add: filter_lineImports)
  also have "\<dots> = (if k \<le> n \<and> n < k + length (l # ls) then lineImports n ((l # ls) ! (n - k)) else [])"
  proof (cases "k = n")
    case True
    then show ?thesis by simp
  next
    case False
    show ?thesis
    proof (cases "k < n")
      case True
      then have "n - k = Suc (n - Suc k)" by simp
      then have "(l # ls) ! (n - k) = ls ! (n - Suc k)"
        by (simp only: nth_Cons_Suc)
      with True False show ?thesis by auto
    next
      case nk: False
      with False show ?thesis by auto
    qed
  qed
  finally show ?case .
qed

lemma lineImports_choice:
  "lineImports i line
     = (if rmatch importPattern line \<noteq> None then fromImport i line else sideEffectImport i line)"
  using fromImport_cases [of i line] sideEffectImport_cases [of i line]
  by (auto simp: lineImports_def)

lemma imports_of_line:
  assumes "i < length (splitOn CHR 0x0A script)"
  shows "filter (\<lambda>imp. impLine imp = i + 1) (parseZenithImports script)
     = (if rmatch importPattern (splitOn CHR 0x0A script ! i) \<noteq> None
        then fromImport i (splitOn CHR 0x0A script ! i)
        else sideEffectImport i (splitOn CHR 0x0A script ! i))"
  using assms filter_parseLines [of i 0 "splitOn CHR 0x0A script"]
  by (simp add: parseZenithImports_def lineImports_choice)

text \<open>
  C10, as the code has it. \<open>parseZenithImports\<close> runs the loop body once per line, in
  order; the body yields at most one import, whose line number is the one-based index of
  the line. The side-effect import is recorded only when the pattern of the import with
  \<open>from\<close> matched nowhere in the line: the imports recorded for line \<open>i\<close> are those of the
  import with \<open>from\<close> when that pattern matches the line, and those of the side-effect
  import otherwise. So the line numbers of the result increase strictly, no line number
  occurs twice, and each is the index of a line of the script.
\<close>

theorem parseZenithImports_lines:
  "parseZenithImports script
     = concat (map (\<lambda>(i, line). lineImports i line)
         (enumerate 0 (splitOn CHR 0x0A script)))
   \<and> (\<forall>i line. \<forall>imp \<in> set (lineImports i line). impLine imp = i + 1)
   \<and> (\<forall>i line. length (lineImports i line) \<le> 1)
   \<and> (\<forall>i line. sideEffectImport i line \<noteq> [] \<longrightarrow>
         rmatch importPattern line = None \<and> fromImport i line = [])
   \<and> sorted_wrt (<) (map impLine (parseZenithImports script))
   \<and> (\<forall>n. length (filter (\<lambda>imp. impLine imp = n) (parseZenithImports script)) \<le> 1)
   \<and> (\<forall>imp \<in> set (parseZenithImports script).
         1 \<le> impLine imp \<and> impLine imp \<le> length (splitOn CHR 0x0A script))
   \<and> (\<forall>i < length (splitOn CHR 0x0A script).
         filter (\<lambda>imp. impLine imp = i + 1) (parseZenithImports script)
           = (if rmatch importPattern (splitOn CHR 0x0A script ! i) \<noteq> None
              then fromImport i (splitOn CHR 0x0A script ! i)
              else sideEffectImport i (splitOn CHR 0x0A script ! i)))"
proof -
  have a: "parseZenithImports script
     = concat (map (\<lambda>(i, line). lineImports i line)
         (enumerate 0 (splitOn CHR 0x0A script)))"
    unfolding parseZenithImports_def by (rule parseLines_enumerate)
  have b: "\<forall>i line. \<forall>imp \<in> set (lineImports i line). impLine imp = i + 1"
  proof (intro allI ballI)
    fix i line imp
    assume "imp \<in> set (lineImports i line)"
    with lineImports_cases [of i line] show "impLine imp = i + 1" by auto
  qed
  have c: "\<forall>i line. length (lineImports i line) \<le> 1"
  proof (intro allI)
    fix i line
    from lineImports_cases [of i line]
    show "length (lineImports i line) \<le> 1" by auto
  qed
  have d: "\<forall>i line. sideEffectImport i line \<noteq> [] \<longrightarrow>
         rmatch importPattern line = None \<and> fromImport i line = []"
  proof (intro allI impI)
    fix i line
    assume "sideEffectImport i line \<noteq> []"
    with sideEffectImport_cases [of i line] have n: "rmatch importPattern line = None" by auto
    with fromImport_cases [of i line] show "rmatch importPattern line = None \<and> fromImport i line = []"
      by auto
  qed
  have e: "sorted_wrt (<) (map impLine (parseZenithImports script))"
    unfolding parseZenithImports_def by (rule parseLines_sorted)
  have f: "\<forall>n. length (filter (\<lambda>imp. impLine imp = n) (parseZenithImports script)) \<le> 1"
    using sorted_filter_le1 [OF e] by blast
  have g: "\<forall>imp \<in> set (parseZenithImports script).
         1 \<le> impLine imp \<and> impLine imp \<le> length (splitOn CHR 0x0A script)"
    unfolding parseZenithImports_def using parseLines_bounds [of _ 0] by fastforce
  have h: "\<forall>i < length (splitOn CHR 0x0A script).
         filter (\<lambda>imp. impLine imp = i + 1) (parseZenithImports script)
           = (if rmatch importPattern (splitOn CHR 0x0A script ! i) \<noteq> None
              then fromImport i (splitOn CHR 0x0A script ! i)
              else sideEffectImport i (splitOn CHR 0x0A script ! i))"
    using imports_of_line by blast
  from a b c d e f g h show ?thesis by blast
qed

theorem parseZenithImports_lines_witness:
  \<open>sideEffectImport 1 (''import \'zenith:side'' @ [CHR 0x27]) \<noteq> []
   \<and> rmatch importPattern (''import \'zenith:side'' @ [CHR 0x27]) = None
   \<and> map impLine (parseZenithImports (''import { a } from \'zenith\'\<newline>import \'zenith:side'' @ [CHR 0x27])) = [1, 2]
   \<and> map specifiers (parseZenithImports (''import { a } from \'zenith\'\<newline>import \'zenith:side'' @ [CHR 0x27])) = [[''a''], []]
   \<and> sorted_wrt (<) (map impLine (parseZenithImports (''import { a } from \'zenith\'\<newline>import \'zenith:side'' @ [CHR 0x27])))\<close>
proof -
  have s: \<open>sideEffectImport 1 (''import \'zenith:side'' @ [CHR 0x27]) \<noteq> []\<close>
    by code_simp
  have v: \<open>map impLine (parseZenithImports (''import { a } from \'zenith\'\<newline>import \'zenith:side'' @ [CHR 0x27])) = [1, 2]\<close>
    \<open>map specifiers (parseZenithImports (''import { a } from \'zenith\'\<newline>import \'zenith:side'' @ [CHR 0x27])) = [[''a''], []]\<close>
    by code_simp+
  from parseZenithImports_lines [of \<open>''import { a } from \'zenith\'\<newline>import \'zenith:side'' @ [CHR 0x27]\<close>] s v
  show ?thesis by blast
qed

text \<open>
  C10 as it is stated fails: the pattern of the import with \<open>from\<close> knows the forms
  \<open>{ names }\<close>, \<open>* as name\<close> and a single name, and no other. On the line below it matches
  nowhere, although the line holds the import with \<open>from\<close> of a default name and a list
  of names, and the side-effect import of the same line is recorded.
\<close>

theorem side_effect_beside_from_counterexample:
  \<open>jsIncludes (''import \'zenith:side\'; import d, { a } from \'zenith'' @ [CHR 0x27])
     (''import d, { a } from \'zenith'' @ [CHR 0x27])
   \<and> rmatch importPattern (''import \'zenith:side\'; import d, { a } from \'zenith'' @ [CHR 0x27]) = None
   \<and> parseZenithImports (''import \'zenith:side\'; import d, { a } from \'zenith'' @ [CHR 0x27])
       = [\<lparr>impModule = ''zenith:side'', specifiers = [], isType = False, impLine = 1\<rparr>]\<close>
  by code_simp

subsection \<open>Findings about imports\<close>

lemma isCoreModule_keys:
  "isCoreModule m \<longleftrightarrow> m \<in> set ([''zenith'', ''zenith/router''] @ objectPrototypeKeys)"
  by (auto simp: isCoreModule_def jsIn_def CORE_MODULES_def)

lemma plugin_not_core: "isPluginModule m \<Longrightarrow> \<not> isCoreModule m"
  by (auto simp: isCoreModule_keys isPluginModule_def startsWith_def objectPrototypeKeys_def)

lemma plugin_isKnown:
  "isPluginModule m \<Longrightarrow> isKnown (resolveModule m) = isKnownPluginModule m"
  by (simp add: resolveModule_def plugin_not_core)

lemma unknownPluginFindings_cases:
  assumes "unknownPluginFindings eng sc ss imp = Inr ds"
  shows "ds = [] \<or> (\<exists>d. ds = [d] \<and> severity d = Information
           \<and> isPluginModule (impModule imp) \<and> \<not> isKnown (resolveModule (impModule imp)))"
  using assms
  by (auto simp: unknownPluginFindings_def Let_def split: if_splits sum.splits option.splits)

lemma specifierFindings_warning:
  "specifierFindings eng sc ss m valid specs = Inr ds \<Longrightarrow> \<forall>d \<in> set ds. severity d = Warning"
proof (induction specs arbitrary: ds)
  case Nil
  then show ?case by simp
next
  case (Cons sp specs)
  show ?case
  proof (cases "sp \<in> set valid")
    case True
    with Cons show ?thesis by simp
  next
    case False
    with Cons.prems obtain r ds' where r: "matchSpecifier eng sp sc = Inr r"
      and ds': "specifierFindings eng sc ss m valid specs = Inr ds'"
      and ds: "ds = (case r of None \<Rightarrow> []
                 | Some sm \<Rightarrow> let specOffset = ss + int (mindex sm) in
                     [\<lparr>severity = Warning, rangeStart = specOffset,
                       rangeEnd = specOffset + int (length sp),
                       message = [CHR 0x27] @ sp @ [CHR 0x27] @ '' is not exported from ''
                                 @ [CHR 0x27] @ m @ [CHR 0x27],
                       diagSource = ''zenith''\<rparr>]) @ ds'"
      by (auto split: sum.splits)
    from Cons.IH [OF ds'] ds show ?thesis by (auto simp: Let_def split: option.splits)
  qed
qed

lemma invalidSpecifierFindings_warning:
  assumes "invalidSpecifierFindings eng sc ss imp = Inr ds"
  shows "(\<forall>d \<in> set ds. severity d = Warning)
         \<and> (ds \<noteq> [] \<longrightarrow> isKnown (resolveModule (impModule imp)))"
proof (cases "isKnown (resolveModule (impModule imp))")
  case False
  with assms show ?thesis by (simp add: invalidSpecifierFindings_def)
next
  case True
  show ?thesis
  proof (cases "resolvedMetadata (resolveModule (impModule imp))")
    case Undefined
    with True assms show ?thesis by (simp add: invalidSpecifierFindings_def)
  next
    case (Own md)
    with True assms have "specifierFindings eng sc ss (impModule imp) (map expName (metaExports md))
        (specifiers imp) = Inr ds"
      by (simp add: invalidSpecifierFindings_def)
    from specifierFindings_warning [OF this] True show ?thesis by simp
  next
    case (Inherited k)
    with True assms show ?thesis by (simp add: invalidSpecifierFindings_def)
  qed
qed

lemma importFindings_split:
  assumes "importFindings eng sc ss imp = Inr fs"
  shows "\<exists>ds1 ds2. fs = ds1 @ ds2 \<and> unknownPluginFindings eng sc ss imp = Inr ds1
           \<and> invalidSpecifierFindings eng sc ss imp = Inr ds2"
  using assms by (auto simp: importFindings_def split: sum.splits)

lemma importFindings_severity:
  assumes "importFindings eng sc ss imp = Inr fs"
  shows "\<forall>d \<in> set fs. severity d = Information \<or> severity d = Warning"
proof -
  from importFindings_split [OF assms] obtain ds1 ds2 where fs: "fs = ds1 @ ds2"
    and u: "unknownPluginFindings eng sc ss imp = Inr ds1"
    and i: "invalidSpecifierFindings eng sc ss imp = Inr ds2" by blast
  from unknownPluginFindings_cases [OF u] invalidSpecifierFindings_warning [OF i] fs
  show ?thesis by auto
qed

lemma importLoop_severity:
  "importLoop eng sc ss imps = Inr ds \<Longrightarrow>
     \<forall>d \<in> set ds. severity d = Information \<or> severity d = Warning"
proof (induction imps arbitrary: ds)
  case Nil
  then show ?case by simp
next
  case (Cons imp imps)
  from Cons.prems obtain fs others where fs: "importFindings eng sc ss imp = Inr fs"
    and o: "importLoop eng sc ss imps = Inr others" and ds: "ds = fs @ others"
    by (auto split: sum.splits)
  from importFindings_severity [OF fs] Cons.IH [OF o] ds show ?case by auto
qed

lemma collectImportDiagnostics_severity:
  assumes "collectImportDiagnostics eng text = Inr ds"
  shows "\<forall>d \<in> set ds. severity d = Information \<or> severity d = Warning"
proof (cases "rmatch scriptPattern text")
  case None
  with assms show ?thesis by (simp add: collectImportDiagnostics_def)
next
  case (Some sm)
  with assms have "importLoop eng (groupText sm 1)
      (int (mindex sm) + jsIndexOf (mtext sm) (groupText sm 1))
      (parseZenithImports (groupText sm 1)) = Inr ds"
    by (simp add: collectImportDiagnostics_def Let_def)
  then show ?thesis by (rule importLoop_severity)
qed

text \<open>
  C1, as the code has it. No finding of \<open>collectImportDiagnostics\<close> has error severity:
  each is an information or a warning. For an import from the plugin namespace, the
  findings are the unknown-plugin note alone, with information severity, when the module
  is not in the plugin registry, and the not-exported notes, with warning severity, when
  it is.
\<close>

theorem import_findings_severity:
  "(collectImportDiagnostics eng text = Inr ds \<longrightarrow>
      (\<forall>d \<in> set ds. severity d = Information \<or> severity d = Warning))
   \<and> (isPluginModule (impModule imp) \<and> importFindings eng scriptContent scriptStart imp = Inr fs
        \<longrightarrow> (\<forall>d \<in> set fs. severity d \<noteq> Error)
          \<and> (\<not> isKnownPluginModule (impModule imp) \<longrightarrow>
                length fs \<le> 1 \<and> (\<forall>d \<in> set fs. severity d = Information))
          \<and> (isKnownPluginModule (impModule imp) \<longrightarrow>
                (\<forall>d \<in> set fs. severity d = Warning)))"
proof -
  have whole: "collectImportDiagnostics eng text = Inr ds \<longrightarrow>
      (\<forall>d \<in> set ds. severity d = Information \<or> severity d = Warning)"
    using collectImportDiagnostics_severity by blast
  have one: "(\<forall>d \<in> set fs. severity d \<noteq> Error)
          \<and> (\<not> isKnownPluginModule (impModule imp) \<longrightarrow>
                length fs \<le> 1 \<and> (\<forall>d \<in> set fs. severity d = Information))
          \<and> (isKnownPluginModule (impModule imp) \<longrightarrow>
                (\<forall>d \<in> set fs. severity d = Warning))"
    if p: "isPluginModule (impModule imp)"
      and f: "importFindings eng scriptContent scriptStart imp = Inr fs"
  proof -
    from importFindings_split [OF f] obtain ds1 ds2 where fs: "fs = ds1 @ ds2"
      and u: "unknownPluginFindings eng scriptContent scriptStart imp = Inr ds1"
      and i: "invalidSpecifierFindings eng scriptContent scriptStart imp = Inr ds2" by blast
    have never: "\<forall>d \<in> set fs. severity d \<noteq> Error"
      using importFindings_severity [OF f] by auto
    have unknown: "length fs \<le> 1 \<and> (\<forall>d \<in> set fs. severity d = Information)"
      if k: "\<not> isKnownPluginModule (impModule imp)"
    proof -
      from p k have "\<not> isKnown (resolveModule (impModule imp))" by (simp add: plugin_isKnown)
      with invalidSpecifierFindings_warning [OF i] have "ds2 = []" by blast
      with unknownPluginFindings_cases [OF u] fs show ?thesis by auto
    qed
    have known: "\<forall>d \<in> set fs. severity d = Warning"
      if k: "isKnownPluginModule (impModule imp)"
    proof -
      from p k have "isKnown (resolveModule (impModule imp))" by (simp add: plugin_isKnown)
      with unknownPluginFindings_cases [OF u] have "ds1 = []" by blast
      with invalidSpecifierFindings_warning [OF i] fs show ?thesis by auto
    qed
    from never unknown known show ?thesis by blast
  qed
  from whole one show ?thesis by blast
qed

theorem import_findings_severity_witness:
  \<open>isPluginModule ''zenith:missing'' \<and> \<not> isKnownPluginModule ''zenith:missing''
   \<and> importFindings noEngine (''import { x } from \'zenith:missing'' @ [CHR 0x27]) 8
        \<lparr>impModule = ''zenith:missing'', specifiers = [''x''], isType = False, impLine = 1\<rparr>
       = Inr [\<lparr>severity = Information, rangeStart = 8, rangeEnd = 42,
               message = ''Unknown plugin module: \'zenith:missing\'. Make sure the plugin is installed.'',
               diagSource = ''zenith''\<rparr>]
   \<and> collectImportDiagnostics noEngine unknownPluginDocument
       = Inr [\<lparr>severity = Information, rangeStart = 8, rangeEnd = 42,
               message = ''Unknown plugin module: \'zenith:missing\'. Make sure the plugin is installed.'',
               diagSource = ''zenith''\<rparr>]
   \<and> Information \<noteq> Error\<close>
proof -
  let ?imp = "\<lparr>impModule = ''zenith:missing'', specifiers = [''x''], isType = False,
                 impLine = 1\<rparr>"
  let ?d = \<open>\<lparr>severity = Information, rangeStart = 8, rangeEnd = 42,
               message = ''Unknown plugin module: \'zenith:missing\'. Make sure the plugin is installed.'',
               diagSource = ''zenith''\<rparr>\<close>
  have p: "isPluginModule ''zenith:missing''" "\<not> isKnownPluginModule ''zenith:missing''"
    by code_simp+
  have f: \<open>importFindings noEngine (''import { x } from \'zenith:missing'' @ [CHR 0x27]) 8 ?imp = Inr [?d]\<close>
    by code_simp
  have c: "collectImportDiagnostics noEngine unknownPluginDocument = Inr [?d]"
    by code_simp
  from import_findings_severity
         [of noEngine unknownPluginDocument "[?d]" ?imp \<open>''import { x } from \'zenith:missing'' @ [CHR 0x27]\<close> 8 "[?d]"] p f c
  show ?thesis by simp
qed

text \<open>
  C1 as it is stated fails: an import from a registered plugin module that names an
  export the module does not have gets a finding with warning severity, not information.
\<close>

theorem plugin_import_warning_counterexample:
  \<open>isPluginModule ''zenith:content''
   \<and> parseZenithImports (''import { bogus } from \'zenith:content'' @ [CHR 0x27])
       = [\<lparr>impModule = ''zenith:content'', specifiers = [''bogus''], isType = False,
            impLine = 1\<rparr>]
   \<and> (\<forall>eng. collectImportDiagnostics eng knownPluginDocument
         = Inr [\<lparr>severity = Warning, rangeStart = 17, rangeEnd = 22,
                 message = ''\'bogus\' is not exported from \'zenith:content'' @ [CHR 0x27],
                 diagSource = ''zenith''\<rparr>])
   \<and> Warning \<noteq> Information\<close>
proof -
  have p: "isPluginModule ''zenith:content''"
    by code_simp
  have i: \<open>parseZenithImports (''import { bogus } from \'zenith:content'' @ [CHR 0x27])
       = [\<lparr>impModule = ''zenith:content'', specifiers = [''bogus''], isType = False,
            impLine = 1\<rparr>]\<close>
    by code_simp
  have c: \<open>collectImportDiagnostics eng knownPluginDocument
         = Inr [\<lparr>severity = Warning, rangeStart = 17, rangeEnd = 22,
                 message = ''\'bogus\' is not exported from \'zenith:content'' @ [CHR 0x27],
                 diagSource = ''zenith''\<rparr>]\<close> for eng
    by code_simp
  from p i c show ?thesis by simp
qed

subsection \<open>Findings about directives\<close>

lemma trim_empty_iff: "trim v = [] \<longleftrightarrow> (\<forall>c \<in> set v. isSpace c)"
proof
  assume "trim v = []"
  then have "dropWhile isSpace (rev (dropWhile isSpace v)) = []" by (simp add: trim_def)
  then have a: "\<forall>c \<in> set (dropWhile isSpace v). isSpace c"
    by (metis dropWhile_eq_Nil_conv set_rev)
  have "dropWhile isSpace v = []"
  proof (rule ccontr)
    assume n: "dropWhile isSpace v \<noteq> []"
    then have "\<not> isSpace (hd (dropWhile isSpace v))" by (rule hd_dropWhile)
    moreover from n have "hd (dropWhile isSpace v) \<in> set (dropWhile isSpace v)" by simp
    ultimately show False using a by blast
  qed
  then show "\<forall>c \<in> set v. isSpace c" by (simp add: dropWhile_eq_Nil_conv)
next
  assume "\<forall>c \<in> set v. isSpace c"
  then have "dropWhile isSpace v = []" by (simp add: dropWhile_eq_Nil_conv)
  then show "trim v = []" by (auto simp: trim_def dest: set_dropWhileD)
qed

lemma space_not_identStart: "isSpace c \<Longrightarrow> \<not> identStart c"
  by (auto simp: isSpace_def identStart_def isAlpha_def isUpper_def isLower_def code_def)

lemma run_Cat_Nil: "(\<And>m. m \<in> set (run a st) \<Longrightarrow> run b m = []) \<Longrightarrow> run (Cat a b) st = []"
  by simp

lemma run_forPattern_spaces:
  assumes "\<forall>c \<in> set (rest st). isSpace c"
  shows "run forPattern st = []"
proof -
  have ident: "run (Cls identStart) m = []" if "\<forall>c \<in> set (rest m). isSpace c" for m
    using that space_not_identStart by (cases "rest m") auto
  have sp: "\<forall>c \<in> set (rest m). isSpace c" if "m \<in> set (run r st')" "\<forall>c \<in> set (rest st'). isSpace c" for m r st'
  proof -
    from run_extends [OF that(1)] obtain u where "rest st' = u @ rest m" by (auto simp: extends_def)
    with that(2) show ?thesis by auto
  qed
  have "\<exists>R. forPattern = Cat Bol (Cat (Star (Cls isSpace))
          (Cat (Cap 1 (Cat (Cls identStart) (Star (Cls identPart)))) R))"
    by (simp add: forPattern_def)
  then obtain R where R: "forPattern = Cat Bol (Cat (Star (Cls isSpace))
          (Cat (Cap 1 (Cat (Cls identStart) (Star (Cls identPart)))) R))" by blast
  show ?thesis
    unfolding R
  proof (rule run_Cat_Nil, rule run_Cat_Nil, rule run_Cat_Nil)
    fix m1 m2 m3
    assume m: "m1 \<in> set (run Bol st)" "m2 \<in> set (run (Star (Cls isSpace)) m1)"
      and m3: "m3 \<in> set (run (Cap 1 (Cat (Cls identStart) (Star (Cls identPart)))) m2)"
    from sp [OF m(2) sp [OF m(1) assms]] have "run (Cls identStart) m2 = []" by (rule ident)
    then have "run (Cap 1 (Cat (Cls identStart) (Star (Cls identPart)))) m2 = []" by simp
    with m3 have False by simp
    then show "run R m3 = []" by blast
  qed
qed

lemma searchFrom_forPattern_spaces:
  "\<forall>c \<in> set s. isSpace c \<Longrightarrow> searchFrom forPattern p s = None"
proof (induction s arbitrary: p)
  case Nil
  then show ?case by (simp add: matchHere_def run_forPattern_spaces)
next
  case (Cons c cs)
  then have "matchHere forPattern p (c # cs) = None"
    by (simp add: matchHere_def run_forPattern_spaces)
  with Cons show ?case by simp
qed

lemma parseForExpression_blank: "trim v = [] \<Longrightarrow> parseForExpression v = None"
  by (simp add: parseForExpression_def rmatch_def trim_empty_iff searchFrom_forPattern_spaces)

lemma consumes_directivePattern: "consumes directivePattern"
  by (simp add: directivePattern_def lit_def chr_def)

lemma consumes_slotForPattern: "consumes slotForPattern"
  by (simp add: slotForPattern_def lit_def chr_def)

lemma consumes_componentPattern: "consumes componentPattern"
  by (simp add: componentPattern_def chr_def)

lemma consumes_expressionPattern: "consumes expressionPattern"
  by (simp add: expressionPattern_def chr_def)

lemma collectComponentDiagnostics_returns:
  "\<exists>cs. collectComponentDiagnostics text graph = Some cs"
  by (cases graph)
     (simp_all add: collectComponentDiagnostics_def execAll_matchAll [OF consumes_componentPattern])

lemma collectExpressionDiagnostics_returns:
  "\<exists>es. collectExpressionDiagnostics text = Some es"
  by (simp add: collectExpressionDiagnostics_def execAll_matchAll [OF consumes_expressionPattern])

lemma collectDirectiveDiagnostics_eq:
  "collectDirectiveDiagnostics text
     = Some (concat (map directiveFindings (matchAll directivePattern [] text))
             @ map slotForFinding (matchAll slotForPattern [] text))"
  by (simp add: collectDirectiveDiagnostics_def execAll_matchAll [OF consumes_directivePattern]
      execAll_matchAll [OF consumes_slotForPattern])

lemma collectDiagnostics_cases:
  "\<exists>cs es. collectComponentDiagnostics text graph = Some cs
     \<and> collectExpressionDiagnostics text = Some es
     \<and> collectDiagnostics eng text graph
         = (case collectImportDiagnostics eng text of
              Inl e \<Rightarrow> Some (Inl e)
            | Inr is \<Rightarrow>
                Some (Inr (cs @ (concat (map directiveFindings (matchAll directivePattern [] text))
                                 @ map slotForFinding (matchAll slotForPattern [] text))
                           @ is @ es)))"
proof -
  from collectComponentDiagnostics_returns obtain cs
    where cs: "collectComponentDiagnostics text graph = Some cs" by blast
  from collectExpressionDiagnostics_returns obtain es
    where es: "collectExpressionDiagnostics text = Some es" by blast
  from cs es show ?thesis
    by (simp add: collectDiagnostics_def collectDirectiveDiagnostics_eq split: sum.splits)
qed

lemma blank_for_findings:
  assumes "groupText mt 1 = ''zen:for''" "trim (groupText mt 2) = []"
  shows "directiveFindings mt = [invalidForFinding mt, requiresValueFinding mt]"
  using assms by (simp add: directiveFindings_def Let_def parseForExpression_blank)

text \<open>
  C9, as the code has it. The scan of the directives ends, and the loop body runs once
  for each directive the scan recognises, from left to right without overlap. For a
  recognised iteration directive whose quoted value is empty or white space, the body
  yields two findings, both of error severity and both spanning the directive: the
  invalid-syntax one, since the value fails the iteration parser, and the
  requires-a-value one; neither check skips the other. \<open>collectDiagnostics\<close> always
  returns or throws; it throws exactly when the import collector does, and otherwise its
  findings are those of the four collectors in order, so they hold both findings.
\<close>

theorem empty_for_two_errors:
  "collectDirectiveDiagnostics text
     = Some (concat (map directiveFindings (matchAll directivePattern [] text))
             @ map slotForFinding (matchAll slotForPattern [] text))
   \<and> execAll directivePattern [] text = Some (matchAll directivePattern [] text)
   \<and> (\<forall>mt \<in> set (matchAll directivePattern [] text).
         groupText mt 1 = ''zen:for'' \<and> trim (groupText mt 2) = [] \<longrightarrow>
           directiveFindings mt = [invalidForFinding mt, requiresValueFinding mt]
           \<and> severity (invalidForFinding mt) = Error
           \<and> severity (requiresValueFinding mt) = Error
           \<and> rangeStart (invalidForFinding mt) = int (mindex mt)
           \<and> rangeStart (requiresValueFinding mt) = int (mindex mt)
           \<and> rangeEnd (invalidForFinding mt) = int (mindex mt) + int (length (mtext mt))
           \<and> rangeEnd (requiresValueFinding mt) = int (mindex mt) + int (length (mtext mt)))
   \<and> (\<exists>cs es. collectComponentDiagnostics text graph = Some cs
         \<and> collectExpressionDiagnostics text = Some es
         \<and> collectDiagnostics eng text graph
             = (case collectImportDiagnostics eng text of
                  Inl e \<Rightarrow> Some (Inl e)
                | Inr is \<Rightarrow>
                    Some (Inr (cs @ (concat (map directiveFindings
                                               (matchAll directivePattern [] text))
                                     @ map slotForFinding (matchAll slotForPattern [] text))
                               @ is @ es))))
   \<and> (\<forall>ds. collectDiagnostics eng text graph = Some (Inr ds) \<longrightarrow>
         (\<forall>mt \<in> set (matchAll directivePattern [] text).
            groupText mt 1 = ''zen:for'' \<and> trim (groupText mt 2) = [] \<longrightarrow>
              invalidForFinding mt \<in> set ds \<and> requiresValueFinding mt \<in> set ds))"
proof -
  have a: "execAll directivePattern [] text = Some (matchAll directivePattern [] text)"
    by (rule execAll_matchAll [OF consumes_directivePattern])
  note b = collectDirectiveDiagnostics_eq [of "text"]
  have c: "directiveFindings mt = [invalidForFinding mt, requiresValueFinding mt]
           \<and> severity (invalidForFinding mt) = Error
           \<and> severity (requiresValueFinding mt) = Error
           \<and> rangeStart (invalidForFinding mt) = int (mindex mt)
           \<and> rangeStart (requiresValueFinding mt) = int (mindex mt)
           \<and> rangeEnd (invalidForFinding mt) = int (mindex mt) + int (length (mtext mt))
           \<and> rangeEnd (requiresValueFinding mt) = int (mindex mt) + int (length (mtext mt))"
    if "groupText mt 1 = ''zen:for'' \<and> trim (groupText mt 2) = []" for mt
    using that blank_for_findings [of mt]
    by (simp add: invalidForFinding_def requiresValueFinding_def matchRange_def)
  note d = collectDiagnostics_cases [of "text" graph eng]
  have e: "invalidForFinding mt \<in> set ds \<and> requiresValueFinding mt \<in> set ds"
    if r: "collectDiagnostics eng text graph = Some (Inr ds)"
      and m: "mt \<in> set (matchAll directivePattern [] text)"
      and h: "groupText mt 1 = ''zen:for'' \<and> trim (groupText mt 2) = []" for ds mt
  proof -
    from d obtain cs es where
      d': "collectDiagnostics eng text graph
             = (case collectImportDiagnostics eng text of
                  Inl e \<Rightarrow> Some (Inl e)
                | Inr is \<Rightarrow>
                    Some (Inr (cs @ (concat (map directiveFindings
                                               (matchAll directivePattern [] text))
                                     @ map slotForFinding (matchAll slotForPattern [] text))
                               @ is @ es)))"
      by blast
    have "\<exists>rest. ds = cs @ (concat (map directiveFindings (matchAll directivePattern [] text))
                      @ map slotForFinding (matchAll slotForPattern [] text)) @ rest"
    proof (cases "collectImportDiagnostics eng text")
      case (Inl e)
      with d' r show ?thesis by simp
    next
      case (Inr found)
      with d' r show ?thesis by simp
    qed
    then obtain rest where
      ds: "ds = cs @ (concat (map directiveFindings (matchAll directivePattern [] text))
                      @ map slotForFinding (matchAll slotForPattern [] text)) @ rest"
      by blast
    from h have f: "directiveFindings mt = [invalidForFinding mt, requiresValueFinding mt]"
      by (simp add: blank_for_findings)
    from m have "set (directiveFindings mt)
                   \<subseteq> set (concat (map directiveFindings (matchAll directivePattern [] text)))"
      by auto
    then have "invalidForFinding mt
                   \<in> set (concat (map directiveFindings (matchAll directivePattern [] text)))
      \<and> requiresValueFinding mt
         \<in> set (concat (map directiveFindings (matchAll directivePattern [] text)))"
      unfolding f by simp
    then show ?thesis unfolding ds by simp
  qed
  from a b c d e show ?thesis by blast
qed

theorem empty_for_two_errors_witness:
  \<open>map (\<lambda>mt. (groupText mt 1, groupText mt 2, mindex mt, mtext mt))
       (matchAll directivePattern [] blankForDocument)
     = [(''zen:for'', ''  '', 4, ''zen:for="  "'')]
   \<and> trim ''  '' = []
   \<and> collectDirectiveDiagnostics blankForDocument
     = Some [\<lparr>severity = Error, rangeStart = 4, rangeEnd = 16,
               message = ''Invalid zen:for syntax. Expected: "item in items" or "item, index in items"'',
               diagSource = ''zenith''\<rparr>,
             \<lparr>severity = Error, rangeStart = 4, rangeEnd = 16,
               message = ''zen:for requires a value'', diagSource = ''zenith''\<rparr>]
   \<and> collectDiagnostics noEngine blankForDocument None
     = Some (Inr [\<lparr>severity = Error, rangeStart = 4, rangeEnd = 16,
               message = ''Invalid zen:for syntax. Expected: "item in items" or "item, index in items"'',
               diagSource = ''zenith''\<rparr>,
             \<lparr>severity = Error, rangeStart = 4, rangeEnd = 16,
               message = ''zen:for requires a value'', diagSource = ''zenith''\<rparr>])
   \<and> list_all (\<lambda>mt. directiveFindings mt = [invalidForFinding mt, requiresValueFinding mt])
        (matchAll directivePattern [] blankForDocument)\<close>
proof -
  have m: \<open>map (\<lambda>mt. (groupText mt 1, groupText mt 2, mindex mt, mtext mt))
       (matchAll directivePattern [] blankForDocument)
     = [(''zen:for'', ''  '', 4, ''zen:for="  "'')]\<close>
    by code_simp
  have t: "trim ''  '' = []"
    by code_simp
  have h: "\<forall>mt \<in> set (matchAll directivePattern [] blankForDocument).
             groupText mt 1 = ''zen:for'' \<and> trim (groupText mt 2) = []"
    by code_simp
  have 1: \<open>collectDirectiveDiagnostics blankForDocument
     = Some [\<lparr>severity = Error, rangeStart = 4, rangeEnd = 16,
               message = ''Invalid zen:for syntax. Expected: "item in items" or "item, index in items"'',
               diagSource = ''zenith''\<rparr>,
             \<lparr>severity = Error, rangeStart = 4, rangeEnd = 16,
               message = ''zen:for requires a value'', diagSource = ''zenith''\<rparr>]\<close>
    by code_simp
  have 2: \<open>collectDiagnostics noEngine blankForDocument None
     = Some (Inr [\<lparr>severity = Error, rangeStart = 4, rangeEnd = 16,
               message = ''Invalid zen:for syntax. Expected: "item in items" or "item, index in items"'',
               diagSource = ''zenith''\<rparr>,
             \<lparr>severity = Error, rangeStart = 4, rangeEnd = 16,
               message = ''zen:for requires a value'', diagSource = ''zenith''\<rparr>])\<close>
    by code_simp
  from empty_for_two_errors [of blankForDocument None noEngine] h
  have "\<forall>mt \<in> set (matchAll directivePattern [] blankForDocument).
          directiveFindings mt = [invalidForFinding mt, requiresValueFinding mt]"
    by blast
  then have 3: "list_all (\<lambda>mt. directiveFindings mt
                               = [invalidForFinding mt, requiresValueFinding mt])
                  (matchAll directivePattern [] blankForDocument)"
    by (simp add: list_all_iff)
  from m t 1 2 3 show ?thesis by blast
qed

text \<open>
  C9 as it is stated fails. In the first document the scan takes \<open>zen:if=\<close>, the quote
  that closes the \<open>title\<close>, and the text up to the next quote as one directive, which
  swallows the iteration directive: the document has the directive with an empty value
  and gets no finding at all. In the second document the specifier of the namespace
  import is no valid pattern; building its regular expression throws, as the engine
  \<open>noEngine\<close> does, and the handler produces no findings.
\<close>

theorem swallowed_for_counterexample:
  \<open>jsIncludes swallowedForDocument ''zen:for=""''
   \<and> (\<forall>eng graph. collectDiagnostics eng swallowedForDocument graph = Some (Inr []))
   \<and> jsIncludes namespaceImportDocument ''zen:for=""''
   \<and> collectDiagnostics noEngine namespaceImportDocument None = Some (Inl SyntaxError)\<close>
proof -
  have 1: \<open>jsIncludes swallowedForDocument ''zen:for=""''\<close>
    \<open>jsIncludes namespaceImportDocument ''zen:for=""''\<close>
    by code_simp+
  have x: "collectDirectiveDiagnostics swallowedForDocument = Some []"
    "collectExpressionDiagnostics swallowedForDocument = Some []"
    "collectComponentDiagnostics swallowedForDocument None = Some []"
    "collectComponentDiagnostics swallowedForDocument (Some g) = Some []"
    "collectImportDiagnostics eng swallowedForDocument = Inr []" for g eng
    by code_simp+
  have 2: "collectDiagnostics eng swallowedForDocument graph = Some (Inr [])" for eng graph
    by (cases graph) (simp_all add: collectDiagnostics_def x)
  have 3: "collectDiagnostics noEngine namespaceImportDocument None = Some (Inl SyntaxError)"
    by code_simp
  from 1 2 3 show ?thesis by blast
qed

subsection \<open>The cache of project graphs\<close>

lemma map_of_mapDelete: "map_of (mapDelete r mp) k = (if k = r then None else map_of mp k)"
  by (induction mp) (auto simp: mapDelete_def)

text \<open>
  C8. \<open>invalidateProjectGraph\<close> leaves the cache as it is when the changed file has no
  project root, and otherwise removes the entry of that root and nothing else: every
  other key keeps its graph, and the other entries keep their order. So when the root
  of the current document is another one and its graph is cached, the next
  \<open>getProjectGraph\<close> for the document returns that cached graph without building it again.
\<close>

theorem invalidate_keeps_other_roots:
  "(projectRootOf pf uri = None \<or> projectRootOf pf uri = Some []
      \<longrightarrow> invalidateProjectGraph pf uri cache = cache)
   \<and> (\<forall>r. r \<noteq> [] \<and> projectRootOf pf uri = Some r \<longrightarrow>
         invalidateProjectGraph pf uri cache = filter (\<lambda>kv. fst kv \<noteq> r) cache
         \<and> map_of (invalidateProjectGraph pf uri cache) r = None)
   \<and> (\<forall>k. projectRootOf pf uri \<noteq> Some k \<longrightarrow>
         map_of (invalidateProjectGraph pf uri cache) k = map_of cache k)
   \<and> (\<forall>r0. r0 \<noteq> [] \<and> projectRootOf pf docUri = Some r0 \<and> projectRootOf pf uri \<noteq> Some r0
           \<and> mapHas cache r0 \<longrightarrow>
         getProjectGraph pf docUri (invalidateProjectGraph pf uri cache)
           = (map_of cache r0, invalidateProjectGraph pf uri cache))"
proof -
  have a: "invalidateProjectGraph pf uri cache = cache"
    if "projectRootOf pf uri = None \<or> projectRootOf pf uri = Some []"
    using that by (auto simp: invalidateProjectGraph_def)
  have b: "invalidateProjectGraph pf uri cache = filter (\<lambda>kv. fst kv \<noteq> r) cache
         \<and> map_of (invalidateProjectGraph pf uri cache) r = None"
    if "r \<noteq> []" "projectRootOf pf uri = Some r" for r
    using that by (simp add: invalidateProjectGraph_def map_of_mapDelete) (simp add: mapDelete_def)
  have c: "map_of (invalidateProjectGraph pf uri cache) k = map_of cache k"
    if "projectRootOf pf uri \<noteq> Some k" for k
    using that
    by (cases "projectRootOf pf uri") (auto simp: invalidateProjectGraph_def map_of_mapDelete)
  have d: "getProjectGraph pf docUri (invalidateProjectGraph pf uri cache)
           = (map_of cache r0, invalidateProjectGraph pf uri cache)"
    if "r0 \<noteq> []" "projectRootOf pf docUri = Some r0" "projectRootOf pf uri \<noteq> Some r0"
      "mapHas cache r0" for r0
  proof -
    from c [OF that(3)] have m: "map_of (invalidateProjectGraph pf uri cache) r0 = map_of cache r0" .
    with that(4) have "mapHas (invalidateProjectGraph pf uri cache) r0" by (simp add: mapHas_def)
    with that(1,2) m show ?thesis by (simp add: getProjectGraph_def)
  qed
  from a b c d show ?thesis by blast
qed

theorem invalidate_keeps_other_roots_witness:
  "projectRootOf examplePlatform ''file:///work/a/src/pages/index.zen'' = Some ''/work/a''
   \<and> projectRootOf examplePlatform ''file:///work/b/src/pages/about.zen'' = Some ''/work/b''
   \<and> mapHas exampleCache ''/work/a''
   \<and> invalidateProjectGraph examplePlatform ''file:///work/b/src/pages/about.zen'' exampleCache
       = [(''/work/a'', \<lparr>root = ''/work/a'', layouts = [], components = [], pages = []\<rparr>)]
   \<and> map_of (invalidateProjectGraph examplePlatform ''file:///work/b/src/pages/about.zen''
         exampleCache) ''/work/a''
       = map_of exampleCache ''/work/a''
   \<and> fst (getProjectGraph examplePlatform ''file:///work/a/src/pages/index.zen''
         (invalidateProjectGraph examplePlatform ''file:///work/b/src/pages/about.zen''
            exampleCache))
       = Some \<lparr>root = ''/work/a'', layouts = [], components = [], pages = []\<rparr>"
proof -
  have r: "projectRootOf examplePlatform ''file:///work/a/src/pages/index.zen'' = Some ''/work/a''"
    "projectRootOf examplePlatform ''file:///work/b/src/pages/about.zen'' = Some ''/work/b''"
    by code_simp+
  have h: "mapHas exampleCache ''/work/a''"
    by code_simp
  have g: "map_of exampleCache ''/work/a''
       = Some \<lparr>root = ''/work/a'', layouts = [], components = [], pages = []\<rparr>"
    by code_simp
  have i: "filter (\<lambda>kv. fst kv \<noteq> ''/work/b'') exampleCache
       = [(''/work/a'', \<lparr>root = ''/work/a'', layouts = [], components = [], pages = []\<rparr>)]"
    by code_simp
  note t = invalidate_keeps_other_roots
         [of examplePlatform "''file:///work/b/src/pages/about.zen''" exampleCache
            "''file:///work/a/src/pages/index.zen''"]
  from t r(2) i
  have 1: "invalidateProjectGraph examplePlatform ''file:///work/b/src/pages/about.zen''
        exampleCache
       = [(''/work/a'', \<lparr>root = ''/work/a'', layouts = [], components = [], pages = []\<rparr>)]"
    by simp
  from r(2)
  have ne: "projectRootOf examplePlatform ''file:///work/b/src/pages/about.zen''
              \<noteq> Some ''/work/a''"
    by simp
  have nn: "''/work/a'' \<noteq> []"
    by simp
  from t ne
  have 2: "map_of (invalidateProjectGraph examplePlatform ''file:///work/b/src/pages/about.zen''
         exampleCache) ''/work/a'' = map_of exampleCache ''/work/a''"
    by blast
  from t r(1) ne nn h
  have "getProjectGraph examplePlatform ''file:///work/a/src/pages/index.zen''
         (invalidateProjectGraph examplePlatform ''file:///work/b/src/pages/about.zen''
            exampleCache)
       = (map_of exampleCache ''/work/a'',
          invalidateProjectGraph examplePlatform ''file:///work/b/src/pages/about.zen''
            exampleCache)"
    by blast
  then have 3: "fst (getProjectGraph examplePlatform ''file:///work/a/src/pages/index.zen''
         (invalidateProjectGraph examplePlatform ''file:///work/b/src/pages/about.zen''
            exampleCache))
       = Some \<lparr>root = ''/work/a'', layouts = [], components = [], pages = []\<rparr>"
    by (simp only: fst_conv g)
  from r h 1 2 3 show ?thesis by blast
qed

subsection \<open>Hover\<close>
















end
